theory Spec2Isabelle
  imports Main
begin

section \<open>JavaScript values\<close>

text \<open>
  The module \<^verbatim>\<open>tw-plugin/utils/colors.ts\<close> works on plain JavaScript data: strings,
  object literals, and whatever else a caller puts into a \<^verbatim>\<open>Record<string, any>\<close>.
  A value is one of the following.
  \<^item> \<open>JObj ps\<close> is a plain object (its prototype is \<^verbatim>\<open>Object.prototype\<close>); \<open>ps\<close> lists its
    own enumerable string-keyed properties in the order in which \<^verbatim>\<open>Object.entries\<close>
    enumerates them (integer-like keys ascending first, then the other keys in creation
    order). An object has each key once.
  \<^item> \<open>JArr xs\<close> is a dense array.
  \<^item> \<open>JNum n\<close> is a number; only its being a number matters below.
  \<^item> \<open>JNative n\<close> is a built-in of the runtime that a property read can reach through the
    prototype chain: the functions of \<^verbatim>\<open>Object.prototype\<close> and that object itself.
  Strings are lists of characters; the index of a character stands for the index of a
  code unit.
\<close>

datatype jsval =
    JUndefined
  | JNull
  | JBool bool
  | JNum int
  | JStr string
  | JObj "(string \<times> jsval) list"
  | JArr "jsval list"
  | JNative string

type_synonym object = "(string \<times> jsval) list"

datatype jserror = TypeError

text \<open>The \<^verbatim>\<open>typeof\<close> operator. \<^verbatim>\<open>typeof null\<close> is \<^verbatim>\<open>"object"\<close>, and so is the type of an array.\<close>

fun typeof :: "jsval \<Rightarrow> string" where
  "typeof JUndefined = ''undefined''"
| "typeof JNull = ''object''"
| "typeof (JBool b) = ''boolean''"
| "typeof (JNum n) = ''number''"
| "typeof (JStr s) = ''string''"
| "typeof (JObj ps) = ''object''"
| "typeof (JArr xs) = ''object''"
| "typeof (JNative n) = (if n = ''Object.prototype'' then ''object'' else ''function'')"

subsection \<open>Property keys of arrays\<close>

text \<open>The canonical decimal numeral of an array index, as \<^verbatim>\<open>Object.entries\<close> reports it.\<close>

definition digit_char :: "nat \<Rightarrow> char" where
  "digit_char d = ''0123456789'' ! d"

fun string_of_nat :: "nat \<Rightarrow> string" where
  "string_of_nat n =
     (if n < 10 then [digit_char n]
      else string_of_nat (n div 10) @ [digit_char (n mod 10)])"

declare string_of_nat.simps [simp del]

definition indexed :: "'a list \<Rightarrow> (string \<times> 'a) list" where
  "indexed xs = zip (map string_of_nat [0..<length xs]) xs"

subsection \<open>Reading and writing properties\<close>

text \<open>
  The property names every plain object inherits from \<^verbatim>\<open>Object.prototype\<close>. All of them
  are functions except \<^verbatim>\<open>__proto__\<close>, an accessor that yields the prototype.
\<close>

definition objectPrototypeKeys :: "string list" where
  "objectPrototypeKeys =
     [''constructor'', ''__defineGetter__'', ''__defineSetter__'', ''hasOwnProperty'',
      ''__lookupGetter__'', ''__lookupSetter__'', ''isPrototypeOf'',
      ''propertyIsEnumerable'', ''toString'', ''valueOf'', ''__proto__'',
      ''toLocaleString'']"

definition inheritedProperty :: "string \<Rightarrow> jsval" where
  "inheritedProperty k =
     (if k = ''__proto__'' then JNative ''Object.prototype''
      else if k = ''constructor'' then JNative ''Object''
      else if k \<in> set objectPrototypeKeys then JNative (''Object.prototype.'' @ k)
      else JUndefined)"

text \<open>\<^verbatim>\<open>k in o\<close> for a plain object \<open>o\<close>: own properties and the prototype chain.\<close>

definition hasProperty :: "object \<Rightarrow> string \<Rightarrow> bool" where
  "hasProperty ps k \<longleftrightarrow> k \<in> fst ` set ps \<or> k \<in> set objectPrototypeKeys"

text \<open>\<^verbatim>\<open>o[k]\<close> for a plain object \<open>o\<close>.\<close>

definition getProperty :: "object \<Rightarrow> string \<Rightarrow> jsval" where
  "getProperty ps k = (case map_of ps k of Some v \<Rightarrow> v | None \<Rightarrow> inheritedProperty k)"

text \<open>
  \<^verbatim>\<open>v?.DEFAULT\<close>: \<^verbatim>\<open>undefined\<close> on \<^verbatim>\<open>null\<close> and \<^verbatim>\<open>undefined\<close>, the property \<^verbatim>\<open>DEFAULT\<close> of a
  plain object, and \<^verbatim>\<open>undefined\<close> on every other value (no string, number, boolean,
  array or built-in has a property of that name).
\<close>

fun optDEFAULT :: "jsval \<Rightarrow> jsval" where
  "optDEFAULT (JObj ps) = getProperty ps ''DEFAULT''"
| "optDEFAULT v = JUndefined"

text \<open>\<^verbatim>\<open>a ?? b\<close>\<close>

definition nullish :: "jsval \<Rightarrow> jsval \<Rightarrow> jsval" where
  "nullish a b = (if a = JUndefined \<or> a = JNull then b else a)"

text \<open>
  \<^verbatim>\<open>o[k] = v\<close> on an object whose keys are neither integer-like nor inherited accessors
  (every key written by this module starts with a dot, or is a CSS property name): an
  existing property keeps its place, a new one goes last.
\<close>

fun setProperty :: "string \<Rightarrow> jsval \<Rightarrow> object \<Rightarrow> object" where
  "setProperty k v [] = [(k, v)]"
| "setProperty k v ((k', v') # ps) =
     (if k' = k then (k, v) # ps else (k', v') # setProperty k v ps)"

text \<open>\<^verbatim>\<open>Object.assign(target, source)\<close> for a plain source object.\<close>

definition objectAssign :: "object \<Rightarrow> object \<Rightarrow> object" where
  "objectAssign target source = foldl (\<lambda>t (k, v). setProperty k v t) target source"

text \<open>
  \<^verbatim>\<open>Object.entries(v)\<close>. It throws a \<^verbatim>\<open>TypeError\<close> on \<^verbatim>\<open>null\<close> and \<^verbatim>\<open>undefined\<close>; a string
  and an array enumerate their indices; numbers, booleans and built-ins have no
  enumerable own property.
\<close>

fun objectEntries :: "jsval \<Rightarrow> jserror + (string \<times> jsval) list" where
  "objectEntries JUndefined = Inl TypeError"
| "objectEntries JNull = Inl TypeError"
| "objectEntries (JObj ps) = Inr ps"
| "objectEntries (JArr xs) = Inr (indexed xs)"
| "objectEntries (JStr s) = Inr (indexed (map (\<lambda>c. JStr [c]) s))"
| "objectEntries v = Inr []"

section \<open>The module\<close>

definition BACKGROUND_PROPERTY :: string where
  "BACKGROUND_PROPERTY = ''--wg-background''"

subsection \<open>getColorFromPalette\<close>

definition getColorFromPalette :: "string \<Rightarrow> object \<Rightarrow> jsval" where
  "getColorFromPalette keyOrColor themeColors =
     (if hasProperty themeColors keyOrColor then
        nullish (optDEFAULT (getProperty themeColors keyOrColor))
                (getProperty themeColors keyOrColor)
      else JStr keyOrColor)"

subsection \<open>getBaseThemableColors\<close>

text \<open>
  Modelled from the spec: the type \<^verbatim>\<open>ThemeableColorOptions\<close>, which the module imports
  from \<^verbatim>\<open>../plugin\<close>. The spec gives it two optional facets,
  \<^verbatim>\<open>light\<close> and \<^verbatim>\<open>dark\<close>, each with an optional \<^verbatim>\<open>background\<close> that is a palette key or a
  literal colour. An absent field is \<open>None\<close>.
\<close>

record ThemeableColors =
  background :: "string option"

record ThemeableColorOptions =
  light :: "ThemeableColors option"
  dark :: "ThemeableColors option"

text \<open>\<^verbatim>\<open>colors?.light?.background\<close> and \<^verbatim>\<open>colors?.dark?.background\<close>\<close>

definition lightBackground :: "ThemeableColorOptions option \<Rightarrow> string option" where
  "lightBackground colors =
     (case colors of None \<Rightarrow> None
      | Some c \<Rightarrow> (case light c of None \<Rightarrow> None | Some m \<Rightarrow> background m))"

definition darkBackground :: "ThemeableColorOptions option \<Rightarrow> string option" where
  "darkBackground colors =
     (case colors of None \<Rightarrow> None
      | Some c \<Rightarrow> (case dark c of None \<Rightarrow> None | Some m \<Rightarrow> background m))"

text \<open>
  Modelled from the spec: the bundled palette \<^verbatim>\<open>colors\<close>, which the module imports from
  \<^verbatim>\<open>../foundation\<close>; it is the parameter \<open>palette\<close> below. Its type makes
  \<^verbatim>\<open>palette["wg-white"].DEFAULT\<close> and \<^verbatim>\<open>palette["wg-dark"].DEFAULT\<close> strings: the entry is a
  shaded family whose \<^verbatim>\<open>DEFAULT\<close> shade is a literal colour. \<open>shadeDEFAULT\<close> reads such an
  entry and is \<open>None\<close> on a parameter that does not have this shape.
\<close>

definition shadeDEFAULT :: "object \<Rightarrow> string \<Rightarrow> string option" where
  "shadeDEFAULT palette k =
     (case map_of palette k of
        Some (JObj shades) \<Rightarrow>
          (case map_of shades ''DEFAULT'' of Some (JStr d) \<Rightarrow> Some d | _ \<Rightarrow> None)
      | _ \<Rightarrow> None)"

definition themableDeclarations :: "jsval \<Rightarrow> jsval \<Rightarrow> jsval" where
  "themableDeclarations lightBgColor darkBgColor =
     JObj [('':root, .light'', JObj [(BACKGROUND_PROPERTY, lightBgColor)]),
           (''@media (prefers-color-scheme: dark)'',
              JObj [('':root'', JObj [(BACKGROUND_PROPERTY, darkBgColor)])]),
           (''.dark'', JObj [(BACKGROUND_PROPERTY, darkBgColor)])]"

definition getBaseThemableColors ::
  "object \<Rightarrow> ThemeableColorOptions option \<Rightarrow> object option \<Rightarrow> jsval option" where
  "getBaseThemableColors palette colors themeColors =
     (case shadeDEFAULT palette ''wg-white'' of
        None \<Rightarrow> None
      | Some defaultLightBgColor \<Rightarrow>
     (case shadeDEFAULT palette ''wg-dark'' of
        None \<Rightarrow> None
      | Some defaultDarkBgColor \<Rightarrow>
          (let lightBgColor =
                 getColorFromPalette
                   (case lightBackground colors of Some b \<Rightarrow> b | None \<Rightarrow> defaultLightBgColor)
                   (case themeColors of Some t \<Rightarrow> t | None \<Rightarrow> palette);
               darkBgColor =
                 getColorFromPalette
                   (case darkBackground colors of Some b \<Rightarrow> b | None \<Rightarrow> defaultDarkBgColor)
                   (case themeColors of Some t \<Rightarrow> t | None \<Rightarrow> palette)
           in Some (themableDeclarations lightBgColor darkBgColor))))"

subsection \<open>createSimpleColorUtility and createShadedColorUtility\<close>

text \<open>The declaration block both functions write for a colour value.\<close>

definition declarations :: "jsval \<Rightarrow> jsval" where
  "declarations v = JObj [(''backgroundColor'', v), (BACKGROUND_PROPERTY, v)]"

definition createSimpleColorUtility :: "string \<Rightarrow> jsval \<Rightarrow> object" where
  "createSimpleColorUtility colorName colorValue =
     [(''.wg-background-'' @ colorName, declarations colorValue)]"

text \<open>The body of the loop over the shades: one assignment to \<^verbatim>\<open>utilities\<close>.\<close>

definition shadeStep :: "string \<Rightarrow> object \<Rightarrow> string \<times> jsval \<Rightarrow> object" where
  "shadeStep colorName utilities entry =
     (case entry of (shade, v) \<Rightarrow>
        if shade = ''DEFAULT''
        then setProperty (''.wg-background-'' @ colorName) (declarations v) utilities
        else setProperty (''.wg-background-'' @ colorName @ ''-'' @ shade) (declarations v)
               utilities)"

definition createShadedColorUtility :: "string \<Rightarrow> jsval \<Rightarrow> jserror + object" where
  "createShadedColorUtility colorName colorValues =
     (case objectEntries colorValues of
        Inl e \<Rightarrow> Inl e
      | Inr entries \<Rightarrow> Inr (foldl (shadeStep colorName) [] entries))"

subsection \<open>generateExtendedColorUtilities\<close>

text \<open>The loop over the entries of \<^verbatim>\<open>colors\<close>, with \<^verbatim>\<open>utilities\<close> as its state.\<close>

fun extendLoop :: "object \<Rightarrow> (string \<times> jsval) list \<Rightarrow> jserror + object" where
  "extendLoop utilities [] = Inr utilities"
| "extendLoop utilities ((colorName, colorValue) # rest) =
     (if typeof colorValue = ''string'' then
        extendLoop (objectAssign utilities (createSimpleColorUtility colorName colorValue)) rest
      else if typeof colorValue = ''object'' then
        (case createShadedColorUtility colorName colorValue of
           Inl e \<Rightarrow> Inl e
         | Inr shaded \<Rightarrow> extendLoop (objectAssign utilities shaded) rest)
      else extendLoop utilities rest)"

definition generateExtendedColorUtilities :: "object \<Rightarrow> jserror + object" where
  "generateExtendedColorUtilities colors = extendLoop [] colors"

section \<open>Notions used in the statements\<close>

subsection \<open>What the spec expects of the expander\<close>

text \<open>
  The class of a shade of a colour: the \<^verbatim>\<open>DEFAULT\<close> shade has the unshaded class, every
  other shade the class with the shade as suffix.
\<close>

definition shadeClass :: "string \<Rightarrow> string \<Rightarrow> string" where
  "shadeClass colorName shade =
     (if shade = ''DEFAULT'' then ''.wg-background-'' @ colorName
      else ''.wg-background-'' @ colorName @ ''-'' @ shade)"

text \<open>What the class of a shade appends to the colour name.\<close>

definition shadeSuffix :: "string \<Rightarrow> string" where
  "shadeSuffix shade = (if shade = ''DEFAULT'' then [] else ''-'' @ shade)"

text \<open>A class sets the standard property and the custom property to the same value.\<close>

definition bothProperties :: "jsval \<Rightarrow> jsval" where
  "bothProperties v = JObj [(''backgroundColor'', v), (''--wg-background'', v)]"

definition familyUtilities :: "string \<Rightarrow> (string \<times> jsval) list \<Rightarrow> object" where
  "familyUtilities colorName entries =
     map (\<lambda>(shade, v). (shadeClass colorName shade, bothProperties v)) entries"

text \<open>
  The shades of a value: the entries of a shaded family; the elements of an array under
  their indices; nothing for any other value.
\<close>

fun shades :: "jsval \<Rightarrow> (string \<times> jsval) list" where
  "shades (JObj family) = family"
| "shades (JArr xs) = indexed xs"
| "shades v = []"

text \<open>
  The classes expected of one entry, and of a whole mapping: a literal colour gives one
  unshaded class, a shaded family one class for each shade.
\<close>

definition expectedEntry :: "string \<Rightarrow> jsval \<Rightarrow> object" where
  "expectedEntry name v =
     (case v of
        JStr s \<Rightarrow> [(''.wg-background-'' @ name, bothProperties v)]
      | _ \<Rightarrow> familyUtilities name (shades v))"

definition expectedUtilities :: "object \<Rightarrow> object" where
  "expectedUtilities colors = concat (map (\<lambda>(name, v). expectedEntry name v) colors)"

subsection \<open>What one entry contributes\<close>

text \<open>
  The object that one pass of the loop of \<^verbatim>\<open>generateExtendedColorUtilities\<close> hands to
  \<^verbatim>\<open>Object.assign\<close>, empty where the loop assigns nothing.
\<close>

definition entryUtilities :: "string \<Rightarrow> jsval \<Rightarrow> object" where
  "entryUtilities colorName colorValue =
     (if typeof colorValue = ''string'' then createSimpleColorUtility colorName colorValue
      else if typeof colorValue = ''object'' then
        (case createShadedColorUtility colorName colorValue of
           Inl e \<Rightarrow> []
         | Inr shaded \<Rightarrow> shaded)
      else [])"

definition emitted :: "object \<Rightarrow> object" where
  "emitted colors = concat (map (\<lambda>(name, v). entryUtilities name v) colors)"

definition assignAll :: "object \<Rightarrow> object \<Rightarrow> object" where
  "assignAll utilities colors =
     foldl (\<lambda>u (name, v). objectAssign u (entryUtilities name v)) utilities colors"

subsection \<open>Reading a decimal numeral\<close>

definition digit_value :: "char \<Rightarrow> nat" where
  "digit_value c = of_char c - 48"

definition nat_of_string :: "string \<Rightarrow> nat" where
  "nat_of_string s = foldl (\<lambda>a c. 10 * a + digit_value c) 0 s"

subsection \<open>Sample inputs\<close>

definition samplePalette :: object where
  "samplePalette =
     [(''wg-white'', JObj [(''DEFAULT'', JStr ''#FFFFFF'')]),
      (''wg-dark'', JObj [(''DEFAULT'', JStr ''#0B0B0B'')]),
      (''wg-blue'', JObj [(''100'', JStr ''#AACCFF''), (''DEFAULT'', JStr ''#0000FF'')])]"

definition sampleColors :: object where
  "sampleColors =
     [(''blue'', JObj [(''100'', JStr ''#AACCFF''), (''DEFAULT'', JStr ''#0000FF'')]),
      (''red'', JStr ''#FF0000''),
      (''gap'', JNum 4)]"

definition collidingColors :: object where
  "collidingColors =
     [(''a-b'', JStr ''#111111''), (''a'', JObj [(''b'', JStr ''#222222'')]),
      (''c'', JStr ''#333333'')]"

definition toneColors :: object where
  "toneColors =
     [(''red'', JStr ''#FF0000''), (''tone'', JArr [JStr ''#101010'', JStr ''#202020''])]"

section \<open>Properties of the object operations\<close>

lemma map_of_setProperty: "map_of (setProperty k v ps) = (map_of ps)(k \<mapsto> v)"
  by (induction ps) (auto simp: fun_eq_iff)

lemma keys_setProperty:
  "map fst (setProperty k v ps) = (if k \<in> fst ` set ps then map fst ps else map fst ps @ [k])"
  by (induction ps) (force simp: image_iff)+

lemma setProperty_fresh: "k \<notin> fst ` set ps \<Longrightarrow> setProperty k v ps = ps @ [(k, v)]"
  by (induction ps) auto

lemma distinct_setProperty:
  "distinct (map fst ps) \<Longrightarrow> distinct (map fst (setProperty k v ps))"
  by (simp add: keys_setProperty)

lemma set_setProperty_subset: "set (setProperty k v ps) \<subseteq> insert (k, v) (set ps)"
  by (induction ps) (auto split: if_splits)

lemma map_of_objectAssign:
  "map_of (objectAssign target source) = map_of target ++ map_of (rev source)"
  unfolding objectAssign_def
proof (induction source arbitrary: target)
  case Nil
  show ?case by simp
next
  case (Cons p source)
  obtain k v where p: "p = (k, v)" by (cases p)
  show ?case
    by (simp add: p Cons.IH map_of_setProperty map_of_append fun_eq_iff map_add_def split: option.splits)
qed

lemma keys_objectAssign:
  "fst ` set (objectAssign target source) = fst ` set target \<union> fst ` set source"
proof -
  have "dom (map_of (objectAssign target source)) = dom (map_of target) \<union> dom (map_of (rev source))"
    by (simp add: map_of_objectAssign Un_commute)
  then show ?thesis by (simp add: dom_map_of_conv_image_fst)
qed

lemma distinct_objectAssign:
  "distinct (map fst target) \<Longrightarrow> distinct (map fst (objectAssign target source))"
  unfolding objectAssign_def
  by (induction source arbitrary: target) (auto simp: distinct_setProperty)

lemma objectAssign_fresh:
  "distinct (map fst source) \<Longrightarrow> fst ` set source \<inter> fst ` set target = {} \<Longrightarrow>
   objectAssign target source = target @ source"
  unfolding objectAssign_def
proof (induction source arbitrary: target)
  case Nil
  show ?case by simp
next
  case (Cons p source)
  obtain k v where p: "p = (k, v)" by (cases p)
  have fresh: "k \<notin> fst ` set target" using Cons.prems p by auto
  have "distinct (map fst source)" using Cons.prems by simp
  moreover have "fst ` set source \<inter> fst ` set (target @ [(k, v)]) = {}"
    using Cons.prems p by (auto simp: image_iff)
  ultimately have "foldl (\<lambda>t (k, v). setProperty k v t) (target @ [(k, v)]) source = (target @ [(k, v)]) @ source"
    by (rule Cons.IH)
  then show ?case by (simp add: p setProperty_fresh [OF fresh])
qed

section \<open>Shaded families and array indices\<close>

lemma declarations_both: "declarations v = bothProperties v"
  by (simp add: declarations_def bothProperties_def BACKGROUND_PROPERTY_def)

lemma shadeStep_setProperty:
  "shadeStep n u (s, v) = setProperty (shadeClass n s) (bothProperties v) u"
  by (simp add: shadeStep_def shadeClass_def declarations_both)

lemma shadeClass_inject: "shadeClass n s = shadeClass n s' \<Longrightarrow> s = s'"
  by (auto simp: shadeClass_def split: if_splits)

lemma foldl_shadeStep: "foldl (shadeStep n) u es = objectAssign u (familyUtilities n es)"
  unfolding objectAssign_def familyUtilities_def
  by (induction es arbitrary: u) (auto simp: shadeStep_setProperty)

lemma keys_familyUtilities:
  "map fst (familyUtilities n es) = map (shadeClass n) (map fst es)"
  by (simp add: familyUtilities_def case_prod_unfold comp_def)

lemma distinct_familyUtilities:
  "distinct (map fst es) \<Longrightarrow> distinct (map fst (familyUtilities n es))"
  unfolding keys_familyUtilities
  by (rule iffD2 [OF distinct_map]) (auto intro!: inj_onI dest: shadeClass_inject)

lemma createShadedColorUtility_entries:
  "objectEntries v = Inr es \<Longrightarrow> distinct (map fst es) \<Longrightarrow>
   createShadedColorUtility n v = Inr (familyUtilities n es)"
  using objectAssign_fresh [of "familyUtilities n es" "[]"]
  by (simp add: createShadedColorUtility_def foldl_shadeStep distinct_familyUtilities)

lemma digit_char_cases:
  "d < 10 \<Longrightarrow> d = 0 \<or> d = 1 \<or> d = 2 \<or> d = 3 \<or> d = 4 \<or> d = 5 \<or> d = 6 \<or> d = 7 \<or> d = 8 \<or> d = (9::nat)"
  by arith

lemma digit_value_digit_char: "d < 10 \<Longrightarrow> digit_value (digit_char d) = d"
  using digit_char_cases [of d] by (auto simp: digit_value_def digit_char_def)

lemma digit_char_in_digits: "d < 10 \<Longrightarrow> digit_char d \<in> set ''0123456789''"
  using digit_char_cases [of d] by (auto simp: digit_char_def)

lemma nat_of_string_of_nat: "nat_of_string (string_of_nat n) = n"
proof (induction n rule: string_of_nat.induct)
  case (1 n)
  show ?case
  proof (cases "n < 10")
    case True
    then show ?thesis
      by (simp add: string_of_nat.simps [of n] nat_of_string_def digit_value_digit_char)
  next
    case False
    with "1.IH" have "nat_of_string (string_of_nat (n div 10)) = n div 10" by simp
    with False show ?thesis
      by (simp add: string_of_nat.simps [of n] nat_of_string_def digit_value_digit_char)
  qed
qed

lemma string_of_nat_inject: "string_of_nat m = string_of_nat n \<Longrightarrow> m = n"
  by (metis nat_of_string_of_nat)

lemma string_of_nat_digits: "set (string_of_nat n) \<subseteq> set ''0123456789''"
proof (induction n rule: string_of_nat.induct)
  case (1 n)
  show ?case
  proof (cases "n < 10")
    case True
    then show ?thesis
      using digit_char_in_digits [of n] by (simp add: string_of_nat.simps [of n])
  next
    case False
    with "1.IH" have "set (string_of_nat (n div 10)) \<subseteq> set ''0123456789''" by simp
    moreover have "digit_char (n mod 10) \<in> set ''0123456789''"
      by (rule digit_char_in_digits) simp
    ultimately show ?thesis using False
      by (simp add: string_of_nat.simps [of n])
  qed
qed

lemma string_of_nat_not_DEFAULT: "string_of_nat n \<noteq> ''DEFAULT''"
proof
  assume "string_of_nat n = ''DEFAULT''"
  then have "CHR ''D'' \<in> set (string_of_nat n)" by simp
  with string_of_nat_digits [of n] show False by auto
qed

lemma indexed_map: "indexed xs = map (\<lambda>i. (string_of_nat i, xs ! i)) [0..<length xs]"
  unfolding indexed_def
  by (rule nth_equalityI) simp_all

lemma keys_indexed: "map fst (indexed xs) = map string_of_nat [0..<length xs]"
  by (simp add: indexed_def)

lemma distinct_indexed: "distinct (map fst (indexed xs))"
  unfolding keys_indexed
  by (rule iffD2 [OF distinct_map]) (auto intro!: inj_onI dest: string_of_nat_inject)

lemma DEFAULT_notin_indexed: "''DEFAULT'' \<notin> fst ` set (indexed xs)"
proof
  assume "''DEFAULT'' \<in> fst ` set (indexed xs)"
  then have "''DEFAULT'' \<in> set (map fst (indexed xs))" by simp
  then obtain i where "string_of_nat i = ''DEFAULT''"
    unfolding keys_indexed by auto
  then show False by (simp add: string_of_nat_not_DEFAULT)
qed

section \<open>The loop of the expander\<close>

lemma set_objectAssign_subset: "set (objectAssign target source) \<subseteq> set target \<union> set source"
  unfolding objectAssign_def
proof (induction source arbitrary: target)
  case Nil
  show ?case by simp
next
  case (Cons p source)
  obtain k v where p: "p = (k, v)" by (cases p)
  have "set (foldl (\<lambda>t (k, v). setProperty k v t) (setProperty k v target) source)
          \<subseteq> set (setProperty k v target) \<union> set source"
    by (rule Cons.IH)
  with set_setProperty_subset [of k v target] show ?case
    by (auto simp: p)
qed

lemma objectAssign_Nil [simp]: "objectAssign target [] = target"
  by (simp add: objectAssign_def)

lemma typeof_string: "typeof v = ''string'' \<longleftrightarrow> (\<exists>s. v = JStr s)"
  by (cases v) auto

lemma typeof_object_entries:
  "typeof v = ''object'' \<Longrightarrow> v \<noteq> JNull \<Longrightarrow> objectEntries v = Inr (shades v)"
  by (cases v) (auto split: if_splits)

lemma distinct_shades_array [simp]: "distinct (map fst (shades (JArr xs)))"
  by (simp add: distinct_indexed)

lemma createShadedColorUtility_assign:
  "objectEntries v = Inr es \<Longrightarrow>
   createShadedColorUtility n v = Inr (objectAssign [] (familyUtilities n es))"
  by (simp add: createShadedColorUtility_def foldl_shadeStep)

lemma createShadedColorUtility_null: "createShadedColorUtility n JNull = Inl TypeError"
  by (simp add: createShadedColorUtility_def)

lemma distinct_entryUtilities: "distinct (map fst (entryUtilities n v))"
proof (cases "objectEntries v")
  case (Inl e)
  then show ?thesis
    by (simp add: entryUtilities_def createSimpleColorUtility_def createShadedColorUtility_def)
next
  case (Inr es)
  have "distinct (map fst (objectAssign [] (familyUtilities n es)))"
    by (rule distinct_objectAssign) simp
  with Inr show ?thesis
    by (simp add: entryUtilities_def createSimpleColorUtility_def createShadedColorUtility_assign)
qed

lemma entryUtilities_subset:
  "v \<noteq> JNull \<Longrightarrow> set (entryUtilities n v) \<subseteq> set (expectedEntry n v)"
proof (cases "typeof v = ''string''")
  case True
  then show ?thesis
    by (auto simp: typeof_string entryUtilities_def expectedEntry_def createSimpleColorUtility_def
          declarations_both)
next
  case notstr: False
  assume nn: "v \<noteq> JNull"
  show ?thesis
  proof (cases "typeof v = ''object''")
    case True
    from notstr have "expectedEntry n v = familyUtilities n (shades v)"
      by (cases v) (simp_all add: expectedEntry_def)
    moreover have "entryUtilities n v = objectAssign [] (familyUtilities n (shades v))"
      using True notstr nn
      by (simp add: entryUtilities_def createShadedColorUtility_assign [OF typeof_object_entries])
    ultimately show ?thesis
      using set_objectAssign_subset [of "[]" "familyUtilities n (shades v)"] by simp
  next
    case False
    with notstr show ?thesis by (simp add: entryUtilities_def)
  qed
qed

lemma keys_entryUtilities:
  "v \<noteq> JNull \<Longrightarrow> fst ` set (entryUtilities n v) = fst ` set (expectedEntry n v)"
proof (cases "typeof v = ''string''")
  case True
  then show ?thesis
    by (auto simp: typeof_string entryUtilities_def expectedEntry_def createSimpleColorUtility_def
          declarations_both)
next
  case notstr: False
  assume nn: "v \<noteq> JNull"
  show ?thesis
  proof (cases "typeof v = ''object''")
    case True
    from notstr have "expectedEntry n v = familyUtilities n (shades v)"
      by (cases v) (simp_all add: expectedEntry_def)
    moreover have "entryUtilities n v = objectAssign [] (familyUtilities n (shades v))"
      using True notstr nn
      by (simp add: entryUtilities_def createShadedColorUtility_assign [OF typeof_object_entries])
    ultimately show ?thesis
      by (simp add: keys_objectAssign)
  next
    case False
    with notstr have "shades v = []" by (cases v) (auto split: if_splits)
    with False notstr show ?thesis
      by (cases v) (simp_all add: entryUtilities_def expectedEntry_def familyUtilities_def)
  qed
qed

lemma entryUtilities_expected:
  "v \<noteq> JNull \<Longrightarrow> distinct (map fst (expectedEntry n v)) \<Longrightarrow>
   entryUtilities n v = expectedEntry n v"
proof (cases "typeof v = ''string''")
  case True
  then show ?thesis
    by (auto simp: typeof_string entryUtilities_def expectedEntry_def createSimpleColorUtility_def
          declarations_both)
next
  case notstr: False
  assume nn: "v \<noteq> JNull" and d: "distinct (map fst (expectedEntry n v))"
  from notstr have ex: "expectedEntry n v = familyUtilities n (shades v)"
    by (cases v) (simp_all add: expectedEntry_def)
  show ?thesis
  proof (cases "typeof v = ''object''")
    case True
    have "entryUtilities n v = objectAssign [] (familyUtilities n (shades v))"
      using True notstr nn
      by (simp add: entryUtilities_def createShadedColorUtility_assign [OF typeof_object_entries])
    also have "\<dots> = [] @ familyUtilities n (shades v)"
      using d by (intro objectAssign_fresh) (simp_all add: ex)
    finally show ?thesis by (simp add: ex)
  next
    case False
    with notstr have "shades v = []" by (cases v) (auto split: if_splits)
    with False notstr show ?thesis
      by (simp add: entryUtilities_def ex familyUtilities_def)
  qed
qed

lemma extendLoop_assignAll:
  "\<forall>(n, v) \<in> set colors. v \<noteq> JNull \<Longrightarrow>
   extendLoop utilities colors = Inr (assignAll utilities colors)"
proof (induction colors arbitrary: utilities)
  case Nil
  show ?case by (simp add: assignAll_def)
next
  case (Cons p colors)
  obtain n v where p: "p = (n, v)" by (cases p)
  from Cons.prems p have nn: "v \<noteq> JNull" and rest: "\<forall>(n, v) \<in> set colors. v \<noteq> JNull"
    by auto
  have IH: "\<And>u. extendLoop u colors = Inr (assignAll u colors)"
    using Cons.IH [OF rest] .
  have step: "assignAll utilities ((n, v) # colors)
                = assignAll (objectAssign utilities (entryUtilities n v)) colors"
    by (simp add: assignAll_def)
  show ?case
  proof (cases "typeof v = ''string''")
    case True
    then show ?thesis by (simp add: p IH step entryUtilities_def)
  next
    case notstr: False
    show ?thesis
    proof (cases "typeof v = ''object''")
      case True
      then obtain shaded where "createShadedColorUtility n v = Inr shaded"
        using nn createShadedColorUtility_assign [OF typeof_object_entries] by blast
      with True notstr show ?thesis by (simp add: p IH step entryUtilities_def)
    next
      case False
      with notstr show ?thesis by (simp add: p IH step entryUtilities_def)
    qed
  qed
qed

lemma extendLoop_null:
  "(n, JNull) \<in> set colors \<Longrightarrow> extendLoop utilities colors = Inl TypeError"
proof (induction colors arbitrary: utilities)
  case Nil
  then show ?case by simp
next
  case (Cons p colors)
  obtain n' v' where p: "p = (n', v')" by (cases p)
  show ?case
  proof (cases "v' = JNull")
    case True
    then show ?thesis by (simp add: p createShadedColorUtility_null)
  next
    case False
    with Cons.prems p have "(n, JNull) \<in> set colors" by auto
    then have IH: "\<And>u. extendLoop u colors = Inl TypeError" by (rule Cons.IH)
    show ?thesis
      by (cases "createShadedColorUtility n' v'") (auto simp: p IH intro: jserror.exhaust)
  qed
qed

lemma map_of_rev_distinct: "distinct (map fst xs) \<Longrightarrow> map_of (rev xs) = map_of xs"
  by (rule map_of_inject_set [THEN iffD2]) (simp_all add: rev_map [symmetric])

lemma map_of_assignAll:
  "map_of (assignAll utilities colors) = map_of utilities ++ map_of (rev (emitted colors))"
proof (induction colors arbitrary: utilities)
  case Nil
  show ?case by (simp add: assignAll_def emitted_def)
next
  case (Cons p colors)
  obtain n v where p: "p = (n, v)" by (cases p)
  have "assignAll utilities (p # colors) = assignAll (objectAssign utilities (entryUtilities n v)) colors"
    by (simp add: assignAll_def p)
  then show ?case
    by (simp add: Cons.IH map_of_objectAssign emitted_def p map_of_append)
qed

lemma distinct_assignAll:
  "distinct (map fst utilities) \<Longrightarrow> distinct (map fst (assignAll utilities colors))"
  unfolding assignAll_def
  by (induction colors arbitrary: utilities) (auto simp: distinct_objectAssign)

lemma set_assignAll_subset:
  "set (assignAll utilities colors) \<subseteq> set utilities \<union> set (emitted colors)"
proof (induction colors arbitrary: utilities)
  case Nil
  show ?case by (simp add: assignAll_def emitted_def)
next
  case (Cons p colors)
  obtain n v where p: "p = (n, v)" by (cases p)
  have eq: "assignAll utilities (p # colors) = assignAll (objectAssign utilities (entryUtilities n v)) colors"
    by (simp add: assignAll_def p)
  have "set (assignAll (objectAssign utilities (entryUtilities n v)) colors)
          \<subseteq> set (objectAssign utilities (entryUtilities n v)) \<union> set (emitted colors)"
    by (rule Cons.IH)
  with set_objectAssign_subset [of utilities "entryUtilities n v"] show ?case
    unfolding eq by (auto simp: emitted_def p)
qed

lemma keys_assignAll:
  "fst ` set (assignAll utilities colors) = fst ` set utilities \<union> fst ` set (emitted colors)"
proof -
  have "dom (map_of (assignAll utilities colors))
          = dom (map_of utilities) \<union> dom (map_of (rev (emitted colors)))"
    by (simp add: map_of_assignAll Un_commute)
  then show ?thesis by (simp add: dom_map_of_conv_image_fst)
qed

lemma assignAll_exact:
  "distinct (map fst (utilities @ emitted colors)) \<Longrightarrow>
   assignAll utilities colors = utilities @ emitted colors"
proof (induction colors arbitrary: utilities)
  case Nil
  show ?case by (simp add: assignAll_def emitted_def)
next
  case (Cons p colors)
  obtain n v where p: "p = (n, v)" by (cases p)
  have em: "emitted (p # colors) = entryUtilities n v @ emitted colors"
    by (simp add: emitted_def p)
  have eq: "assignAll utilities (p # colors) = assignAll (objectAssign utilities (entryUtilities n v)) colors"
    by (simp add: assignAll_def p)
  from Cons.prems have d: "distinct (map fst (utilities @ entryUtilities n v @ emitted colors))"
    by (simp add: em)
  then have "objectAssign utilities (entryUtilities n v) = utilities @ entryUtilities n v"
    by (intro objectAssign_fresh) auto
  moreover have "assignAll (utilities @ entryUtilities n v) colors
                   = (utilities @ entryUtilities n v) @ emitted colors"
    using d by (intro Cons.IH) simp
  ultimately show ?case by (simp add: eq em)
qed

lemma generateExtendedColorUtilities_total:
  "\<forall>(n, v) \<in> set colors. v \<noteq> JNull \<Longrightarrow>
   generateExtendedColorUtilities colors = Inr (assignAll [] colors)"
  by (simp add: generateExtendedColorUtilities_def extendLoop_assignAll)

lemma entryUtilities_skipped:
  "typeof v \<noteq> ''string'' \<Longrightarrow> typeof v \<noteq> ''object'' \<Longrightarrow> entryUtilities n v = []"
  by (simp add: entryUtilities_def)

lemma generateExtendedColorUtilities_null:
  "(n, JNull) \<in> set colors \<Longrightarrow> generateExtendedColorUtilities colors = Inl TypeError"
  by (simp add: generateExtendedColorUtilities_def extendLoop_null)

lemma keys_concat: "fst ` set (concat (map f xs)) = (\<Union>x \<in> set xs. fst ` set (f x))"
  by auto

lemma keys_emitted:
  "\<forall>(n, v) \<in> set colors. v \<noteq> JNull \<Longrightarrow>
   fst ` set (emitted colors) = fst ` set (expectedUtilities colors)"
proof (induction colors)
  case Nil
  show ?case by (simp add: emitted_def expectedUtilities_def)
next
  case (Cons p colors)
  obtain n v where p: "p = (n, v)" by (cases p)
  from Cons.prems p have nn: "v \<noteq> JNull" and rest: "\<forall>(n, v) \<in> set colors. v \<noteq> JNull"
    by auto
  have "fst ` set (emitted (p # colors))
          = fst ` set (entryUtilities n v) \<union> fst ` set (emitted colors)"
    by (simp add: emitted_def p image_Un)
  also have "\<dots> = fst ` set (expectedEntry n v) \<union> fst ` set (expectedUtilities colors)"
    by (simp add: keys_entryUtilities [OF nn] Cons.IH [OF rest])
  also have "\<dots> = fst ` set (expectedUtilities (p # colors))"
    by (simp add: expectedUtilities_def p image_Un)
  finally show ?case .
qed

lemma emitted_subset:
  "\<forall>(n, v) \<in> set colors. v \<noteq> JNull \<Longrightarrow>
   set (emitted colors) \<subseteq> set (expectedUtilities colors)"
  unfolding emitted_def expectedUtilities_def
  using entryUtilities_subset by fastforce

lemma emitted_expected:
  "\<forall>(n, v) \<in> set colors. v \<noteq> JNull \<Longrightarrow> distinct (map fst (expectedUtilities colors)) \<Longrightarrow>
   emitted colors = expectedUtilities colors"
proof (induction colors)
  case Nil
  show ?case by (simp add: emitted_def expectedUtilities_def)
next
  case (Cons p colors)
  obtain n v where p: "p = (n, v)" by (cases p)
  have ex: "expectedUtilities (p # colors) = expectedEntry n v @ expectedUtilities colors"
    by (simp add: expectedUtilities_def p)
  have em: "emitted (p # colors) = entryUtilities n v @ emitted colors"
    by (simp add: emitted_def p)
  from Cons.prems(2) have d1: "distinct (map fst (expectedEntry n v))"
    and d2: "distinct (map fst (expectedUtilities colors))"
    by (simp_all add: ex)
  from Cons.prems(1) p have nn: "v \<noteq> JNull" and rest: "\<forall>(n, v) \<in> set colors. v \<noteq> JNull"
    by auto
  show ?case
    by (simp add: ex em entryUtilities_expected [OF nn d1] Cons.IH [OF rest d2])
qed

lemma createShadedColorUtility_keys:
  assumes "createShadedColorUtility n v = Inr u"
  shows "\<exists>es. objectEntries v = Inr es \<and> fst ` set u = shadeClass n ` fst ` set es"
proof (cases "objectEntries v")
  case (Inl e)
  with assms show ?thesis by (simp add: createShadedColorUtility_def)
next
  case (Inr es)
  with assms have "u = objectAssign [] (familyUtilities n es)"
    by (simp add: createShadedColorUtility_assign)
  then have "fst ` set u = set (map fst (familyUtilities n es))"
    by (simp add: keys_objectAssign)
  also have "\<dots> = shadeClass n ` fst ` set es"
    by (simp add: keys_familyUtilities image_image)
  finally show ?thesis using Inr by simp
qed

lemma keys_emitted_Union:
  "fst ` set (emitted colors) = (\<Union>(n, v) \<in> set colors. fst ` set (entryUtilities n v))"
  by (induction colors) (auto simp: emitted_def)

lemma emitted_append: "emitted (xs @ ys) = emitted xs @ emitted ys"
  by (simp add: emitted_def)

lemma emitted_Cons: "emitted ((n, v) # ys) = entryUtilities n v @ emitted ys"
  by (simp add: emitted_def)

lemma map_of_rev_emitted_last:
  assumes "(c, d) \<in> set (entryUtilities name v)"
      and "c \<notin> fst ` set (emitted after)"
  shows "map_of (rev (emitted (before @ (name, v) # after))) c = Some d"
proof -
  have 1: "map_of (rev (emitted after)) c = None"
    using assms(2) by (simp add: map_of_eq_None_iff)
  have "map_of (entryUtilities name v) c = Some d"
    using assms(1) distinct_entryUtilities [of name v] by simp
  then have 2: "map_of (rev (entryUtilities name v)) c = Some d"
    by (simp add: map_of_rev_distinct distinct_entryUtilities)
  show ?thesis
    by (simp add: emitted_append emitted_Cons map_of_append map_add_def 1 2)
qed

lemma familyUtilities_no_DEFAULT:
  "''DEFAULT'' \<notin> fst ` set family \<Longrightarrow>
   familyUtilities name family =
     map (\<lambda>(shade, v). (''.wg-background-'' @ name @ ''-'' @ shade,
                        JObj [(''backgroundColor'', v), (''--wg-background'', v)])) family"
  unfolding familyUtilities_def
  by (rule map_cong) (auto simp: shadeClass_def bothProperties_def image_iff)

lemma generateExtendedColorUtilities_single_family:
  assumes "createShadedColorUtility name v = Inr u" and "typeof v = ''object''"
      and "distinct (map fst u)"
  shows "generateExtendedColorUtilities [(name, v)] = Inr u"
proof -
  have "objectAssign [] u = [] @ u"
    using assms(3) by (intro objectAssign_fresh) simp_all
  then show ?thesis
    using assms(1,2) by (simp add: generateExtendedColorUtilities_def)
qed

lemma entryUtilities_family:
  "distinct (map fst family) \<Longrightarrow> entryUtilities name (JObj family) = familyUtilities name family"
  by (simp add: entryUtilities_def createShadedColorUtility_entries)

lemma entryUtilities_array:
  "entryUtilities name (JArr xs) = familyUtilities name (indexed xs)"
  by (simp add: entryUtilities_def createShadedColorUtility_entries distinct_indexed)

lemma familyUtilities_indexed:
  "familyUtilities name (indexed xs) =
     map (\<lambda>i. (''.wg-background-'' @ name @ ''-'' @ string_of_nat i,
                JObj [(''backgroundColor'', xs ! i), (''--wg-background'', xs ! i)]))
         [0..<length xs]"
  by (simp add: indexed_map familyUtilities_def shadeClass_def string_of_nat_not_DEFAULT
        bothProperties_def comp_def)

lemma keys_subset_output:
  assumes "(name, v) \<in> set colors"
  shows "fst ` set (entryUtilities name v) \<subseteq> fst ` set (assignAll [] colors)"
  using assms by (auto simp: keys_assignAll keys_emitted_Union)

lemma map_of_rev_last:
  "map_of (rev xs) c = Some d \<longleftrightarrow>
     (\<exists>pre post. xs = pre @ (c, d) # post \<and> c \<notin> fst ` set post)"
proof (induction xs rule: rev_induct)
  case Nil
  show ?case by simp
next
  case (snoc p xs)
  obtain k v where p: "p = (k, v)" by (cases p)
  show ?case
  proof (cases "k = c")
    case True
    have "(\<exists>pre post. xs @ [(c, v)] = pre @ (c, d) # post \<and> c \<notin> fst ` set post) \<longleftrightarrow> v = d"
    proof
      assume "\<exists>pre post. xs @ [(c, v)] = pre @ (c, d) # post \<and> c \<notin> fst ` set post"
      then obtain pre post where e: "xs @ [(c, v)] = pre @ (c, d) # post"
        and n: "c \<notin> fst ` set post" by blast
      show "v = d"
      proof (cases post rule: rev_cases)
        case Nil
        with e show ?thesis by simp
      next
        case (snoc post' q)
        with e have "q = (c, v)" by simp
        with snoc n show ?thesis by (auto simp: image_iff)
      qed
    next
      assume "v = d"
      then have "xs @ [(c, v)] = xs @ (c, d) # [] \<and> c \<notin> fst ` set []" by simp
      then show "\<exists>pre post. xs @ [(c, v)] = pre @ (c, d) # post \<and> c \<notin> fst ` set post"
        by blast
    qed
    with True p show ?thesis by simp
  next
    case False
    have "(\<exists>pre post. xs @ [(k, v)] = pre @ (c, d) # post \<and> c \<notin> fst ` set post) \<longleftrightarrow>
          (\<exists>pre post. xs = pre @ (c, d) # post \<and> c \<notin> fst ` set post)"
    proof
      assume "\<exists>pre post. xs @ [(k, v)] = pre @ (c, d) # post \<and> c \<notin> fst ` set post"
      then obtain pre post where e: "xs @ [(k, v)] = pre @ (c, d) # post"
        and n: "c \<notin> fst ` set post" by blast
      show "\<exists>pre post. xs = pre @ (c, d) # post \<and> c \<notin> fst ` set post"
      proof (cases post rule: rev_cases)
        case Nil
        with e False show ?thesis by simp
      next
        case (snoc post' q)
        with e have "xs = pre @ (c, d) # post'" by simp
        moreover from snoc n have "c \<notin> fst ` set post'" by simp
        ultimately show ?thesis by blast
      qed
    next
      assume "\<exists>pre post. xs = pre @ (c, d) # post \<and> c \<notin> fst ` set post"
      then obtain pre post where e: "xs = pre @ (c, d) # post"
        and n: "c \<notin> fst ` set post" by blast
      then have "xs @ [(k, v)] = pre @ (c, d) # (post @ [(k, v)]) \<and>
                 c \<notin> fst ` set (post @ [(k, v)])"
        using False by simp
      then show "\<exists>pre post. xs @ [(k, v)] = pre @ (c, d) # post \<and> c \<notin> fst ` set post"
        by blast
    qed
    with False p snoc.IH show ?thesis by simp
  qed
qed

lemma map_of_rev_entryUtilities:
  "v \<noteq> JNull \<Longrightarrow> map_of (rev (entryUtilities n v)) = map_of (rev (expectedEntry n v))"
proof (cases "typeof v = ''string''")
  case True
  then show ?thesis
    by (auto simp: typeof_string entryUtilities_def expectedEntry_def createSimpleColorUtility_def
          declarations_both)
next
  case notstr: False
  assume nn: "v \<noteq> JNull"
  from notstr have ex: "expectedEntry n v = familyUtilities n (shades v)"
    by (cases v) (simp_all add: expectedEntry_def)
  show ?thesis
  proof (cases "typeof v = ''object''")
    case True
    have eu: "entryUtilities n v = objectAssign [] (familyUtilities n (shades v))"
      using True notstr nn
      by (simp add: entryUtilities_def createShadedColorUtility_assign [OF typeof_object_entries])
    have "map_of (rev (entryUtilities n v)) = map_of (entryUtilities n v)"
      by (rule map_of_rev_distinct) (rule distinct_entryUtilities)
    also have "\<dots> = map_of (rev (familyUtilities n (shades v)))"
      by (simp add: eu map_of_objectAssign)
    finally show ?thesis by (simp add: ex)
  next
    case False
    with notstr have "shades v = []" by (cases v) (auto split: if_splits)
    with False notstr show ?thesis
      by (simp add: entryUtilities_def ex familyUtilities_def)
  qed
qed

lemma map_of_rev_emitted:
  "\<forall>(n, v) \<in> set colors. v \<noteq> JNull \<Longrightarrow>
   map_of (rev (emitted colors)) = map_of (rev (expectedUtilities colors))"
proof (induction colors)
  case Nil
  show ?case by (simp add: emitted_def expectedUtilities_def)
next
  case (Cons p colors)
  obtain n v where p: "p = (n, v)" by (cases p)
  from Cons.prems p have nn: "v \<noteq> JNull" and rest: "\<forall>(n, v) \<in> set colors. v \<noteq> JNull"
    by auto
  have ex: "expectedUtilities (p # colors) = expectedEntry n v @ expectedUtilities colors"
    by (simp add: expectedUtilities_def p)
  have em: "emitted (p # colors) = entryUtilities n v @ emitted colors"
    by (simp add: emitted_def p)
  show ?case
    by (simp add: ex em map_of_append map_of_rev_entryUtilities [OF nn] Cons.IH [OF rest])
qed

section \<open>Class names\<close>

lemma shadeClass_not_DEFAULT_suffix: "shadeClass n s \<noteq> ''.wg-background-'' @ n @ ''-DEFAULT''"
  by (auto simp: shadeClass_def)

lemma shadeClass_hyphen_free:
  assumes "CHR ''-'' \<notin> set n" and "CHR ''-'' \<notin> set n'"
      and "shadeClass n s = shadeClass n' s'"
  shows "n = n' \<and> s = s'"
proof -
  define suffix where "suffix = (\<lambda>t. if t = ''DEFAULT'' then [] else ''-'' @ t)"
  have cls: "\<And>m t. shadeClass m t = ''.wg-background-'' @ m @ suffix t"
    by (simp add: shadeClass_def suffix_def)
  have tw: "\<And>m t. CHR ''-'' \<notin> set m \<Longrightarrow> takeWhile (\<lambda>c. c \<noteq> CHR ''-'') (m @ suffix t) = m"
  proof -
    fix m t assume m: "CHR ''-'' \<notin> set m"
    have "takeWhile (\<lambda>c. c \<noteq> CHR ''-'') (m @ suffix t)
            = m @ takeWhile (\<lambda>c. c \<noteq> CHR ''-'') (suffix t)"
      using m by (intro takeWhile_append2) auto
    also have "takeWhile (\<lambda>c. c \<noteq> CHR ''-'') (suffix t) = []"
      by (simp add: suffix_def)
    finally show "takeWhile (\<lambda>c. c \<noteq> CHR ''-'') (m @ suffix t) = m" by simp
  qed
  from assms(3) have eq: "n @ suffix s = n' @ suffix s'" by (simp add: cls)
  then have "takeWhile (\<lambda>c. c \<noteq> CHR ''-'') (n @ suffix s)
               = takeWhile (\<lambda>c. c \<noteq> CHR ''-'') (n' @ suffix s')" by simp
  then have n: "n = n'" by (simp add: tw assms(1,2))
  with assms(3) have "s = s'" by (auto dest: shadeClass_inject)
  with n show ?thesis by simp
qed

lemma shadeClass_suffix: "shadeClass n s = ''.wg-background-'' @ n @ shadeSuffix s"
  by (simp add: shadeClass_def shadeSuffix_def)

lemma shadeSuffix_inject: "shadeSuffix s = shadeSuffix s' \<Longrightarrow> s = s'"
  by (auto simp: shadeSuffix_def split: if_splits)

lemma shadeSuffix_extends:
  assumes "us @ shadeSuffix s = shadeSuffix s'" and "us \<noteq> []"
  shows "\<exists>t. us = ''-'' @ t \<and> s' \<noteq> ''DEFAULT'' \<and> s' = t @ shadeSuffix s"
proof -
  from assms have ne: "s' \<noteq> ''DEFAULT''" by (auto simp: shadeSuffix_def split: if_splits)
  with assms(1) have eq: "us @ shadeSuffix s = CHR ''-'' # s'" by (simp add: shadeSuffix_def)
  from assms(2) obtain c t where us: "us = c # t" by (cases us) auto
  with eq have "c = CHR ''-''" and "s' = t @ shadeSuffix s" by simp_all
  with us ne show ?thesis by simp
qed

lemma shadeClass_eq_iff:
  "shadeClass n s = shadeClass n' s' \<longleftrightarrow>
     (n = n' \<and> s = s') \<or>
     (\<exists>t. n' = n @ ''-'' @ t \<and> s \<noteq> ''DEFAULT'' \<and> s = t @ shadeSuffix s') \<or>
     (\<exists>t. n = n' @ ''-'' @ t \<and> s' \<noteq> ''DEFAULT'' \<and> s' = t @ shadeSuffix s)"
  (is "?L \<longleftrightarrow> ?R")
proof
  assume ?L
  then have "n @ shadeSuffix s = n' @ shadeSuffix s'" by (simp add: shadeClass_suffix)
  then obtain us where us: "n = n' @ us \<and> us @ shadeSuffix s = shadeSuffix s' \<or>
                            n @ us = n' \<and> shadeSuffix s = us @ shadeSuffix s'"
    unfolding append_eq_append_conv2 by blast
  show ?R
  proof (cases "us = []")
    case True
    with us have "n = n'" and "shadeSuffix s = shadeSuffix s'" by auto
    then show ?thesis by (auto dest: shadeSuffix_inject)
  next
    case False
    from us show ?thesis
    proof
      assume a: "n = n' @ us \<and> us @ shadeSuffix s = shadeSuffix s'"
      with False obtain t where "us = ''-'' @ t" "s' \<noteq> ''DEFAULT''" "s' = t @ shadeSuffix s"
        using shadeSuffix_extends [of us s s'] by blast
      with a show ?thesis by blast
    next
      assume a: "n @ us = n' \<and> shadeSuffix s = us @ shadeSuffix s'"
      with False obtain t where "us = ''-'' @ t" "s \<noteq> ''DEFAULT''" "s = t @ shadeSuffix s'"
        using shadeSuffix_extends [of us s' s] by metis
      with a show ?thesis by blast
    qed
  qed
next
  assume ?R
  then show ?L
    by (auto simp: shadeClass_suffix) (simp_all add: shadeSuffix_def)
qed

section \<open>The colour resolver\<close>

lemma getColorFromPalette_passthrough:
  "\<not> hasProperty themeColors s \<Longrightarrow> getColorFromPalette s themeColors = JStr s"
  by (simp add: getColorFromPalette_def)

lemma hasProperty_own: "map_of themeColors k = Some entry \<Longrightarrow> hasProperty themeColors k"
  by (auto simp: hasProperty_def dest: map_of_SomeD intro: rev_image_eqI)

lemma getProperty_own: "map_of themeColors k = Some entry \<Longrightarrow> getProperty themeColors k = entry"
  by (simp add: getProperty_def)

lemma samplePalette_defaults:
  "shadeDEFAULT samplePalette ''wg-white'' = Some ''#FFFFFF''"
  "shadeDEFAULT samplePalette ''wg-dark'' = Some ''#0B0B0B''"
  by (simp_all add: shadeDEFAULT_def samplePalette_def)

lemma samplePalette_no_hex:
  "\<not> hasProperty samplePalette ''#FFFFFF''" "\<not> hasProperty samplePalette ''#0B0B0B''"
  by (simp_all add: hasProperty_def samplePalette_def objectPrototypeKeys_def)

text \<open>
  Claim C4. A string that is not a key of the palette is returned unchanged.

  The module tests \<^verbatim>\<open>keyOrColor in themeColors\<close>, and \<^verbatim>\<open>in\<close> also finds the names a plain
  object inherits from \<^verbatim>\<open>Object.prototype\<close>. The string \<^verbatim>\<open>"toString"\<close> is not a key of the
  palette below, yet the resolver does not return it: it returns the inherited function.
\<close>

theorem getColorFromPalette_inherited_name:
  "''toString'' \<notin> fst ` set samplePalette \<and>
   getColorFromPalette ''toString'' samplePalette = JNative ''Object.prototype.toString'' \<and>
   getColorFromPalette ''toString'' samplePalette \<noteq> JStr ''toString''"
  by (simp add: getColorFromPalette_def hasProperty_def objectPrototypeKeys_def
        getProperty_def inheritedProperty_def nullish_def samplePalette_def)

text \<open>
  Claim C5. For a key of the palette, the resolver returns the entry itself when the entry
  is a literal colour, and the value of the \<^verbatim>\<open>DEFAULT\<close> shade when the entry is a shaded
  family (a family has that shade, and its value is a colour, so neither \<^verbatim>\<open>undefined\<close> nor
  \<^verbatim>\<open>null\<close>).
\<close>

theorem getColorFromPalette_own_key:
  assumes "map_of themeColors k = Some entry"
  shows "(\<forall>s. entry = JStr s \<longrightarrow> getColorFromPalette k themeColors = JStr s) \<and>
         (\<forall>family d. entry = JObj family \<and> map_of family ''DEFAULT'' = Some d \<and>
                      d \<noteq> JUndefined \<and> d \<noteq> JNull
                      \<longrightarrow> getColorFromPalette k themeColors = d)"
  using hasProperty_own [OF assms] getProperty_own [OF assms]
  by (auto simp: getColorFromPalette_def nullish_def getProperty_def)

theorem getColorFromPalette_own_key_witness:
  "getColorFromPalette ''wg-blue''
     [(''wg-blue'', JObj [(''100'', JStr ''#AACCFF''), (''DEFAULT'', JStr ''#0000FF'')]),
      (''red'', JStr ''#FF0000'')] = JStr ''#0000FF'' \<and>
   getColorFromPalette ''red''
     [(''wg-blue'', JObj [(''100'', JStr ''#AACCFF''), (''DEFAULT'', JStr ''#0000FF'')]),
      (''red'', JStr ''#FF0000'')] = JStr ''#FF0000''"
  using getColorFromPalette_own_key
          [of "[(''wg-blue'', JObj [(''100'', JStr ''#AACCFF''), (''DEFAULT'', JStr ''#0000FF'')]),
                (''red'', JStr ''#FF0000'')]"
              "''wg-blue''" "JObj [(''100'', JStr ''#AACCFF''), (''DEFAULT'', JStr ''#0000FF'')]"]
        getColorFromPalette_own_key
          [of "[(''wg-blue'', JObj [(''100'', JStr ''#AACCFF''), (''DEFAULT'', JStr ''#0000FF'')]),
                (''red'', JStr ''#FF0000'')]"
              "''red''" "JStr ''#FF0000''"]
  by simp

section \<open>The themable variables\<close>

text \<open>
  Claim C2. Whatever the options and the extended palette, present or absent, the result
  has exactly three top-level contexts: \<^verbatim>\<open>:root, .light\<close> with the resolved light background,
  the dark media query with a nested \<^verbatim>\<open>:root\<close> that has the resolved dark background, and
  \<^verbatim>\<open>.dark\<close> with the same dark background; each is the single declaration of
  \<^verbatim>\<open>--wg-background\<close>. Here \<open>dl\<close> and \<open>dd\<close> are the two default colours of the bundled
  palette.
\<close>

theorem getBaseThemableColors_contexts:
  assumes "shadeDEFAULT palette ''wg-white'' = Some dl"
      and "shadeDEFAULT palette ''wg-dark'' = Some dd"
  shows "getBaseThemableColors palette colors themeColors =
           Some (JObj
             [('':root, .light'',
                 JObj [(''--wg-background'',
                          getColorFromPalette
                            (case lightBackground colors of Some b \<Rightarrow> b | None \<Rightarrow> dl)
                            (case themeColors of Some t \<Rightarrow> t | None \<Rightarrow> palette))]),
              (''@media (prefers-color-scheme: dark)'',
                 JObj [('':root'',
                   JObj [(''--wg-background'',
                            getColorFromPalette
                              (case darkBackground colors of Some b \<Rightarrow> b | None \<Rightarrow> dd)
                              (case themeColors of Some t \<Rightarrow> t | None \<Rightarrow> palette))])]),
              (''.dark'',
                 JObj [(''--wg-background'',
                          getColorFromPalette
                            (case darkBackground colors of Some b \<Rightarrow> b | None \<Rightarrow> dd)
                            (case themeColors of Some t \<Rightarrow> t | None \<Rightarrow> palette))])])"
  using assms
  by (simp add: getBaseThemableColors_def themableDeclarations_def BACKGROUND_PROPERTY_def
        Let_def)

theorem getBaseThemableColors_contexts_witness:
  "getBaseThemableColors samplePalette None None =
     Some (JObj
       [('':root, .light'', JObj [(''--wg-background'', JStr ''#FFFFFF'')]),
        (''@media (prefers-color-scheme: dark)'',
           JObj [('':root'', JObj [(''--wg-background'', JStr ''#0B0B0B'')])]),
        (''.dark'', JObj [(''--wg-background'', JStr ''#0B0B0B'')])])"
  using getBaseThemableColors_contexts [OF samplePalette_defaults, of None None]
  by (simp add: lightBackground_def darkBackground_def getColorFromPalette_passthrough
        samplePalette_no_hex)

text \<open>
  Claim C3, as stated: for each mode the output holds the user's background for that mode,
  resolved against the extended palette if there is one and against the default palette
  otherwise, and the built-in default colour of the mode when the user gives none.

  The default colour goes through the resolver as well. With no options and an extended
  palette that has the default light colour \<^verbatim>\<open>#FFFFFF\<close> as a key, the light background is
  what that key resolves to, not the default colour.
\<close>

theorem default_background_counterexample:
  "shadeDEFAULT samplePalette ''wg-white'' = Some ''#FFFFFF'' \<and>
   lightBackground None = None \<and>
   getBaseThemableColors samplePalette None (Some [(''#FFFFFF'', JStr ''#000000'')])
     = Some (themableDeclarations (JStr ''#000000'') (JStr ''#0B0B0B'')) \<and>
   getBaseThemableColors samplePalette None (Some [(''#FFFFFF'', JStr ''#000000'')])
     \<noteq> Some (themableDeclarations (JStr ''#FFFFFF'') (JStr ''#0B0B0B''))"
  by (simp add: getBaseThemableColors_def samplePalette_defaults lightBackground_def
        darkBackground_def getColorFromPalette_def hasProperty_def objectPrototypeKeys_def
        getProperty_def nullish_def themableDeclarations_def Let_def)

text \<open>
  Claim C3, amended: for each mode the output holds the result of the resolver, against the
  extended palette if there is one and against the default palette otherwise, on the
  user's background for that mode, and on the built-in default colour of the mode when the
  user gives none; that result is the default colour itself whenever the default colour is
  not a property name of the palette resolved against. A call without arguments gives the
  two default colours, provided they are not property names of the default palette.
\<close>

theorem getBaseThemableColors_resolution:
  assumes "shadeDEFAULT palette ''wg-white'' = Some dl"
      and "shadeDEFAULT palette ''wg-dark'' = Some dd"
  shows "\<exists>l d.
           getBaseThemableColors palette colors themeColors = Some (themableDeclarations l d) \<and>
           (\<forall>b. lightBackground colors = Some b \<longrightarrow>
              l = getColorFromPalette b (case themeColors of Some t \<Rightarrow> t | None \<Rightarrow> palette)) \<and>
           (\<forall>b. darkBackground colors = Some b \<longrightarrow>
              d = getColorFromPalette b (case themeColors of Some t \<Rightarrow> t | None \<Rightarrow> palette)) \<and>
           (lightBackground colors = None \<longrightarrow>
              l = getColorFromPalette dl (case themeColors of Some t \<Rightarrow> t | None \<Rightarrow> palette) \<and>
              (\<not> hasProperty (case themeColors of Some t \<Rightarrow> t | None \<Rightarrow> palette) dl
                 \<longrightarrow> l = JStr dl)) \<and>
           (darkBackground colors = None \<longrightarrow>
              d = getColorFromPalette dd (case themeColors of Some t \<Rightarrow> t | None \<Rightarrow> palette) \<and>
              (\<not> hasProperty (case themeColors of Some t \<Rightarrow> t | None \<Rightarrow> palette) dd
                 \<longrightarrow> d = JStr dd)) \<and>
           (\<not> hasProperty palette dl \<and> \<not> hasProperty palette dd \<longrightarrow>
              getBaseThemableColors palette None None
                = Some (themableDeclarations (JStr dl) (JStr dd)))"
proof -
  let ?tc = "case themeColors of Some t \<Rightarrow> t | None \<Rightarrow> palette"
  let ?l = "getColorFromPalette
              (case lightBackground colors of Some b \<Rightarrow> b | None \<Rightarrow> dl) ?tc"
  let ?d = "getColorFromPalette
              (case darkBackground colors of Some b \<Rightarrow> b | None \<Rightarrow> dd) ?tc"
  have run: "getBaseThemableColors palette colors themeColors = Some (themableDeclarations ?l ?d)"
    using assms by (simp add: getBaseThemableColors_def Let_def)
  have light_given: "\<forall>b. lightBackground colors = Some b \<longrightarrow> ?l = getColorFromPalette b ?tc"
    by simp
  have dark_given: "\<forall>b. darkBackground colors = Some b \<longrightarrow> ?d = getColorFromPalette b ?tc"
    by simp
  have light_absent: "lightBackground colors = None \<longrightarrow>
      ?l = getColorFromPalette dl ?tc \<and> (\<not> hasProperty ?tc dl \<longrightarrow> ?l = JStr dl)"
    by (simp add: getColorFromPalette_passthrough)
  have dark_absent: "darkBackground colors = None \<longrightarrow>
      ?d = getColorFromPalette dd ?tc \<and> (\<not> hasProperty ?tc dd \<longrightarrow> ?d = JStr dd)"
    by (simp add: getColorFromPalette_passthrough)
  have no_arguments: "\<not> hasProperty palette dl \<and> \<not> hasProperty palette dd \<longrightarrow>
      getBaseThemableColors palette None None = Some (themableDeclarations (JStr dl) (JStr dd))"
    using assms
    by (simp add: getBaseThemableColors_def Let_def lightBackground_def darkBackground_def
          getColorFromPalette_passthrough)
  from run light_given dark_given light_absent dark_absent no_arguments
  show ?thesis by (intro exI [of _ ?l] exI [of _ ?d] conjI)
qed

theorem getBaseThemableColors_resolution_witness:
  "(\<exists>l d. getBaseThemableColors samplePalette
             (Some \<lparr>light = Some \<lparr>background = Some ''wg-blue''\<rparr>, dark = None\<rparr>) None
             = Some (themableDeclarations l d) \<and>
          l = getColorFromPalette ''wg-blue'' samplePalette \<and> d = JStr ''#0B0B0B'') \<and>
   getBaseThemableColors samplePalette None None
     = Some (themableDeclarations (JStr ''#FFFFFF'') (JStr ''#0B0B0B''))"
proof -
  have l: "lightBackground (Some \<lparr>light = Some \<lparr>background = Some ''wg-blue''\<rparr>, dark = None\<rparr>)
             = Some ''wg-blue''"
    and d: "darkBackground (Some \<lparr>light = Some \<lparr>background = Some ''wg-blue''\<rparr>, dark = None\<rparr>)
             = None"
    by (simp_all add: lightBackground_def darkBackground_def)
  show ?thesis
    using getBaseThemableColors_resolution
            [OF samplePalette_defaults,
             of "Some \<lparr>light = Some \<lparr>background = Some ''wg-blue''\<rparr>, dark = None\<rparr>" None]
          samplePalette_no_hex
    by (auto simp: l d)
qed

section \<open>The utility expander\<close>

text \<open>
  Claim C6. The expander never throws, and an entry whose value is neither a string nor an
  object, \<^verbatim>\<open>null\<close> included, is skipped.

  \<^verbatim>\<open>typeof null\<close> is \<^verbatim>\<open>"object"\<close>, so a \<^verbatim>\<open>null\<close> entry takes the branch of the shaded
  families, where \<^verbatim>\<open>Object.entries(null)\<close> throws a \<^verbatim>\<open>TypeError\<close>.
\<close>

theorem generateExtendedColorUtilities_null_throws:
  "typeof JNull = ''object'' \<and>
   generateExtendedColorUtilities [(''red'', JStr ''#FF0000''), (''gone'', JNull)]
     = Inl TypeError"
  by (simp add: generateExtendedColorUtilities_def createShadedColorUtility_def)

text \<open>
  Claim C1, as stated: for every input mapping the expander emits the class
  \<^verbatim>\<open>.wg-background-{name}\<close> for a literal entry, and for a shaded family that class for the
  \<^verbatim>\<open>DEFAULT\<close> shade and \<^verbatim>\<open>.wg-background-{name}-{shade}\<close> for every other shade; every emitted
  class sets both properties to the value of that entry or shade.

  Two inputs show otherwise. The literal entry \<^verbatim>\<open>blue-100\<close> and the shade \<^verbatim>\<open>100\<close> of the
  family \<^verbatim>\<open>blue\<close> have the same class, and the result gives that class the value of the
  shade, which comes later, not the value of the literal entry. And on a mapping with a
  \<^verbatim>\<open>null\<close> entry nothing is emitted at all, because the expander throws.
\<close>

theorem expander_entry_value_counterexample:
  "generateExtendedColorUtilities
       [(''blue-100'', JStr ''#111111''), (''blue'', JObj [(''100'', JStr ''#AACCFF'')])]
     = Inr [(''.wg-background-blue-100'',
               JObj [(''backgroundColor'', JStr ''#AACCFF''), (''--wg-background'', JStr ''#AACCFF'')])] \<and>
   (''.wg-background-blue-100'',
      JObj [(''backgroundColor'', JStr ''#111111''), (''--wg-background'', JStr ''#111111'')])
     \<notin> set [(''.wg-background-blue-100'',
                  JObj [(''backgroundColor'', JStr ''#AACCFF''), (''--wg-background'', JStr ''#AACCFF'')])] \<and>
   generateExtendedColorUtilities
       [(''blue'', JObj [(''100'', JStr ''#AACCFF'')]), (''none'', JNull)]
     = Inl TypeError"
  by (simp add: generateExtendedColorUtilities_def createSimpleColorUtility_def
        createShadedColorUtility_def shadeStep_def objectAssign_def declarations_def
        BACKGROUND_PROPERTY_def)

text \<open>
  Claim C1, amended: for every input mapping without a \<^verbatim>\<open>null\<close> entry the expander returns
  an object \<open>U\<close> with these properties. Its classes are exactly the expected ones:
  \<^verbatim>\<open>.wg-background-{name}\<close> for a literal entry and for the \<^verbatim>\<open>DEFAULT\<close> shade of a family,
  \<^verbatim>\<open>.wg-background-{name}-{shade}\<close> for every other shade. \<open>U\<close> has every class once, and the
  class sets \<^verbatim>\<open>backgroundColor\<close> and \<^verbatim>\<open>--wg-background\<close> to the value of the last entry or
  shade, in the order of enumeration, that has this class: the pair of a class and its
  declarations is in \<open>U\<close> exactly if it occurs among the expected pairs with no pair of the
  same class after it. So where the expected classes are pairwise different, \<open>U\<close> is the
  list of the expected pairs, in order, and each class has the value of its own entry or
  shade. The class \<^verbatim>\<open>.wg-background-{name}-DEFAULT\<close> is never among the classes made from a
  family called \<^verbatim>\<open>name\<close>.
\<close>

theorem generateExtendedColorUtilities_classes:
  assumes "\<forall>(n, v) \<in> set colors. v \<noteq> JNull"
  shows "\<exists>U. generateExtendedColorUtilities colors = Inr U \<and>
             distinct (map fst U) \<and>
             fst ` set U = fst ` set (expectedUtilities colors) \<and>
             (\<forall>c d. (c, d) \<in> set U \<longleftrightarrow>
                (\<exists>pre post. expectedUtilities colors = pre @ (c, d) # post \<and>
                             c \<notin> fst ` set post)) \<and>
             (distinct (map fst (expectedUtilities colors)) \<longrightarrow> U = expectedUtilities colors) \<and>
             (\<forall>name v u. createShadedColorUtility name v = Inr u \<longrightarrow>
                ''.wg-background-'' @ name @ ''-DEFAULT'' \<notin> fst ` set u)"
proof -
  let ?U = "assignAll [] colors"
  have ret: "generateExtendedColorUtilities colors = Inr ?U"
    using assms by (rule generateExtendedColorUtilities_total)
  have dist: "distinct (map fst ?U)"
    by (rule distinct_assignAll) simp
  have keys: "fst ` set ?U = fst ` set (expectedUtilities colors)"
    by (simp add: keys_assignAll keys_emitted [OF assms])
  have last: "\<forall>c d. (c, d) \<in> set ?U \<longleftrightarrow>
                (\<exists>pre post. expectedUtilities colors = pre @ (c, d) # post \<and>
                             c \<notin> fst ` set post)"
  proof (intro allI)
    fix c d
    have "(c, d) \<in> set ?U \<longleftrightarrow> map_of ?U c = Some d"
      using dist by simp
    also have "\<dots> \<longleftrightarrow> map_of (rev (expectedUtilities colors)) c = Some d"
      by (simp add: map_of_assignAll map_of_rev_emitted [OF assms])
    also have "\<dots> \<longleftrightarrow> (\<exists>pre post. expectedUtilities colors = pre @ (c, d) # post \<and>
                             c \<notin> fst ` set post)"
      by (rule map_of_rev_last)
    finally show "(c, d) \<in> set ?U \<longleftrightarrow>
                (\<exists>pre post. expectedUtilities colors = pre @ (c, d) # post \<and>
                             c \<notin> fst ` set post)" .
  qed
  have exact: "distinct (map fst (expectedUtilities colors)) \<longrightarrow> ?U = expectedUtilities colors"
  proof
    assume d: "distinct (map fst (expectedUtilities colors))"
    have em: "emitted colors = expectedUtilities colors"
      using assms d by (rule emitted_expected)
    have "assignAll [] colors = [] @ emitted colors"
      by (rule assignAll_exact) (simp add: em d)
    then show "?U = expectedUtilities colors" by (simp add: em)
  qed
  have suffix: "\<forall>name v u. createShadedColorUtility name v = Inr u \<longrightarrow>
                ''.wg-background-'' @ name @ ''-DEFAULT'' \<notin> fst ` set u"
  proof (intro allI impI)
    fix name v u assume "createShadedColorUtility name v = Inr u"
    then obtain es :: "(string \<times> jsval) list"
      where "fst ` set u = shadeClass name ` fst ` set es"
      using createShadedColorUtility_keys by blast
    then show "''.wg-background-'' @ name @ ''-DEFAULT'' \<notin> fst ` set u"
      using shadeClass_not_DEFAULT_suffix [of name] by (auto simp: image_iff) metis
  qed
  from ret dist keys last exact suffix show ?thesis
    by (intro exI [of _ ?U] conjI)
qed

lemma sampleColors_expected:
  "expectedUtilities sampleColors =
     [(''.wg-background-blue-100'', bothProperties (JStr ''#AACCFF'')),
      (''.wg-background-blue'', bothProperties (JStr ''#0000FF'')),
      (''.wg-background-red'', bothProperties (JStr ''#FF0000''))]"
  by (simp add: sampleColors_def expectedUtilities_def expectedEntry_def familyUtilities_def
        shadeClass_def)

lemma collidingColors_expected:
  "expectedUtilities collidingColors =
     [(''.wg-background-a-b'', bothProperties (JStr ''#111111''))] @
     (''.wg-background-a-b'', bothProperties (JStr ''#222222'')) #
     [(''.wg-background-c'', bothProperties (JStr ''#333333''))]"
  by (simp add: collidingColors_def expectedUtilities_def expectedEntry_def familyUtilities_def
        shadeClass_def)

theorem generateExtendedColorUtilities_classes_witness:
  "generateExtendedColorUtilities sampleColors =
     Inr [(''.wg-background-blue-100'',
             JObj [(''backgroundColor'', JStr ''#AACCFF''), (''--wg-background'', JStr ''#AACCFF'')]),
          (''.wg-background-blue'',
             JObj [(''backgroundColor'', JStr ''#0000FF''), (''--wg-background'', JStr ''#0000FF'')]),
          (''.wg-background-red'',
             JObj [(''backgroundColor'', JStr ''#FF0000''), (''--wg-background'', JStr ''#FF0000'')])] \<and>
   ''.wg-background-'' @ ''blue'' @ ''-DEFAULT''
     \<notin> fst ` set [(''.wg-background-blue-100'', bothProperties (JStr ''#AACCFF'')),
                    (''.wg-background-blue'', bothProperties (JStr ''#0000FF''))] \<and>
   (\<exists>U. generateExtendedColorUtilities collidingColors = Inr U \<and>
        (''.wg-background-a-b'', bothProperties (JStr ''#222222'')) \<in> set U)"
proof -
  have nn: "\<forall>(n, v) \<in> set sampleColors. v \<noteq> JNull"
    by (simp add: sampleColors_def)
  have d: "distinct (map fst (expectedUtilities sampleColors))"
    by (simp add: sampleColors_expected)
  have blue: "createShadedColorUtility ''blue''
                (JObj [(''100'', JStr ''#AACCFF''), (''DEFAULT'', JStr ''#0000FF'')])
              = Inr [(''.wg-background-blue-100'', bothProperties (JStr ''#AACCFF'')),
                     (''.wg-background-blue'', bothProperties (JStr ''#0000FF''))]"
    by (simp add: createShadedColorUtility_def shadeStep_setProperty shadeClass_def)
  from generateExtendedColorUtilities_classes [OF nn] obtain U
    where ret: "generateExtendedColorUtilities sampleColors = Inr U"
      and exact: "distinct (map fst (expectedUtilities sampleColors)) \<longrightarrow>
                    U = expectedUtilities sampleColors"
      and suffix: "\<forall>name v u. createShadedColorUtility name v = Inr u \<longrightarrow>
                     ''.wg-background-'' @ name @ ''-DEFAULT'' \<notin> fst ` set u"
    by (elim exE conjE)
  from exact d have "U = expectedUtilities sampleColors" by (rule mp)
  with ret have a: "generateExtendedColorUtilities sampleColors =
     Inr [(''.wg-background-blue-100'',
             JObj [(''backgroundColor'', JStr ''#AACCFF''), (''--wg-background'', JStr ''#AACCFF'')]),
          (''.wg-background-blue'',
             JObj [(''backgroundColor'', JStr ''#0000FF''), (''--wg-background'', JStr ''#0000FF'')]),
          (''.wg-background-red'',
             JObj [(''backgroundColor'', JStr ''#FF0000''), (''--wg-background'', JStr ''#FF0000'')])]"
    by (simp add: sampleColors_expected bothProperties_def)
  from suffix blue have b: "''.wg-background-'' @ ''blue'' @ ''-DEFAULT''
     \<notin> fst ` set [(''.wg-background-blue-100'', bothProperties (JStr ''#AACCFF'')),
                    (''.wg-background-blue'', bothProperties (JStr ''#0000FF''))]"
    by (elim allE impE)
  have nn': "\<forall>(n, v) \<in> set collidingColors. v \<noteq> JNull"
    by (simp add: collidingColors_def)
  from generateExtendedColorUtilities_classes [OF nn'] obtain V
    where ret': "generateExtendedColorUtilities collidingColors = Inr V"
      and last: "\<forall>c d. (c, d) \<in> set V \<longleftrightarrow>
                   (\<exists>pre post. expectedUtilities collidingColors = pre @ (c, d) # post \<and>
                                c \<notin> fst ` set post)"
    by (elim exE conjE)
  have "\<exists>pre post. expectedUtilities collidingColors
                      = pre @ (''.wg-background-a-b'', bothProperties (JStr ''#222222'')) # post \<and>
                    ''.wg-background-a-b'' \<notin> fst ` set post"
    by (intro exI conjI, rule collidingColors_expected) simp
  with last have "(''.wg-background-a-b'', bothProperties (JStr ''#222222'')) \<in> set V"
    by (simp only:)
  with ret' have c: "\<exists>U. generateExtendedColorUtilities collidingColors = Inr U \<and>
        (''.wg-background-a-b'', bothProperties (JStr ''#222222'')) \<in> set U"
    by (intro exI [of _ V] conjI)
  from a b c show ?thesis by (intro conjI)
qed

text \<open>
  Claim C7, as stated: no two different pairs of a colour name and a shade, the unshaded
  case counting as a shade of its own, produce the same class name.

  The name and the shade are joined by a hyphen, and a name may contain hyphens. The
  unshaded colour \<^verbatim>\<open>a-b\<close> and the shade \<^verbatim>\<open>b\<close> of the colour \<^verbatim>\<open>a\<close> both get the class
  \<^verbatim>\<open>.wg-background-a-b\<close>, and the expander keeps one of the two.
\<close>

theorem class_name_collision_counterexample:
  "(''a-b'', ''DEFAULT'') \<noteq> (''a'', ''b'') \<and>
   createSimpleColorUtility ''a-b'' (JStr ''#111111'')
     = [(''.wg-background-a-b'', bothProperties (JStr ''#111111''))] \<and>
   createShadedColorUtility ''a-b'' (JObj [(''DEFAULT'', JStr ''#111111'')])
     = Inr [(''.wg-background-a-b'', bothProperties (JStr ''#111111''))] \<and>
   createShadedColorUtility ''a'' (JObj [(''b'', JStr ''#222222'')])
     = Inr [(''.wg-background-a-b'', bothProperties (JStr ''#222222''))] \<and>
   generateExtendedColorUtilities
       [(''a-b'', JStr ''#111111''), (''a'', JObj [(''b'', JStr ''#222222'')])]
     = Inr [(''.wg-background-a-b'', bothProperties (JStr ''#222222''))]"
  by (simp add: generateExtendedColorUtilities_def createSimpleColorUtility_def
        createShadedColorUtility_def shadeStep_def objectAssign_def declarations_both)

text \<open>
  Claim C7, amended: the class-name construction is injective over the pairs of a colour
  name and a shade (the unshaded case is the shade \<^verbatim>\<open>DEFAULT\<close>), except between two colour
  names of which one is the other followed by a hyphen and a rest \<open>t\<close>. Two pairs have the
  same class name exactly if they are equal, or one colour name is \<open>n\<close>, the other is
  \<open>n-t\<close>, and the shade of \<open>n\<close> is \<open>t\<close> followed by what the shade of \<open>n-t\<close> appends
  (nothing for the unshaded case, a hyphen and the shade otherwise). So different shades
  of one colour name have different class names, and so have different pairs whose colour
  names are not related in that way. \<open>shadeClass\<close> is the class name the two functions of
  the module give to a pair.
\<close>

theorem class_names_distinct_per_color:
  "createSimpleColorUtility n v = [(shadeClass n ''DEFAULT'', bothProperties v)] \<and>
   createShadedColorUtility n (JObj [(s, v)]) = Inr [(shadeClass n s, bothProperties v)] \<and>
   (shadeClass n s = shadeClass n' s' \<longleftrightarrow>
      (n = n' \<and> s = s') \<or>
      (\<exists>t. n' = n @ ''-'' @ t \<and> s \<noteq> ''DEFAULT'' \<and> s = t @ shadeSuffix s') \<or>
      (\<exists>t. n = n' @ ''-'' @ t \<and> s' \<noteq> ''DEFAULT'' \<and> s' = t @ shadeSuffix s)) \<and>
   (s \<noteq> s' \<longrightarrow> shadeClass n s \<noteq> shadeClass n s') \<and>
   ((n, s) \<noteq> (n', s') \<and> (\<forall>t. n' \<noteq> n @ ''-'' @ t) \<and> (\<forall>t. n \<noteq> n' @ ''-'' @ t)
      \<longrightarrow> shadeClass n s \<noteq> shadeClass n' s')"
proof -
  have simple: "createSimpleColorUtility n v = [(shadeClass n ''DEFAULT'', bothProperties v)]"
    by (simp add: createSimpleColorUtility_def shadeClass_def declarations_both)
  have shaded: "createShadedColorUtility n (JObj [(s, v)]) = Inr [(shadeClass n s, bothProperties v)]"
    by (simp add: createShadedColorUtility_def shadeStep_setProperty)
  note exact = shadeClass_eq_iff [of n s n' s']
  have same: "s \<noteq> s' \<longrightarrow> shadeClass n s \<noteq> shadeClass n s'"
    by (auto dest: shadeClass_inject)
  have unrelated: "(n, s) \<noteq> (n', s') \<and> (\<forall>t. n' \<noteq> n @ ''-'' @ t) \<and> (\<forall>t. n \<noteq> n' @ ''-'' @ t)
      \<longrightarrow> shadeClass n s \<noteq> shadeClass n' s'"
    unfolding exact by blast
  from simple shaded exact same unrelated show ?thesis by (intro conjI)
qed

theorem class_names_distinct_per_color_witness:
  "shadeClass ''wg-blue'' ''100'' \<noteq> shadeClass ''wg-blue'' ''DEFAULT'' \<and>
   shadeClass ''wg-blue'' ''100'' \<noteq> shadeClass ''wg-dark'' ''100'' \<and>
   shadeClass ''a'' ''b'' = shadeClass ''a-b'' ''DEFAULT''"
proof -
  note same = class_names_distinct_per_color
                [of "''wg-blue''" "JStr ''#AACCFF''" "''100''" "''wg-blue''" "''DEFAULT''"]
  note other = class_names_distinct_per_color
                 [of "''wg-blue''" "JStr ''#AACCFF''" "''100''" "''wg-dark''" "''100''"]
  note clash = class_names_distinct_per_color
                 [of "''a''" "JStr ''#222222''" "''b''" "''a-b''" "''DEFAULT''"]
  from same have "''100'' \<noteq> ''DEFAULT'' \<longrightarrow> shadeClass ''wg-blue'' ''100'' \<noteq> shadeClass ''wg-blue'' ''DEFAULT''"
    by (elim conjE)
  then have a: "shadeClass ''wg-blue'' ''100'' \<noteq> shadeClass ''wg-blue'' ''DEFAULT''"
    by simp
  from other have "(''wg-blue'', ''100'') \<noteq> (''wg-dark'', ''100'') \<and>
      (\<forall>t. ''wg-dark'' \<noteq> ''wg-blue'' @ ''-'' @ t) \<and> (\<forall>t. ''wg-blue'' \<noteq> ''wg-dark'' @ ''-'' @ t)
      \<longrightarrow> shadeClass ''wg-blue'' ''100'' \<noteq> shadeClass ''wg-dark'' ''100''"
    by (elim conjE)
  then have b: "shadeClass ''wg-blue'' ''100'' \<noteq> shadeClass ''wg-dark'' ''100''"
    by simp
  from clash have "shadeClass ''a'' ''b'' = shadeClass ''a-b'' ''DEFAULT'' \<longleftrightarrow>
      (''a'' = ''a-b'' \<and> ''b'' = ''DEFAULT'') \<or>
      (\<exists>t. ''a-b'' = ''a'' @ ''-'' @ t \<and> ''b'' \<noteq> ''DEFAULT'' \<and> ''b'' = t @ shadeSuffix ''DEFAULT'') \<or>
      (\<exists>t. ''a'' = ''a-b'' @ ''-'' @ t \<and> ''DEFAULT'' \<noteq> ''DEFAULT'' \<and>
           ''DEFAULT'' = t @ shadeSuffix ''b'')"
    by (elim conjE)
  moreover have "\<exists>t. ''a-b'' = ''a'' @ ''-'' @ t \<and> ''b'' \<noteq> ''DEFAULT'' \<and>
                     ''b'' = t @ shadeSuffix ''DEFAULT''"
    by (rule exI [of _ "''b''"]) (simp add: shadeSuffix_def)
  ultimately have c: "shadeClass ''a'' ''b'' = shadeClass ''a-b'' ''DEFAULT''"
    by blast
  from a b c show ?thesis by (intro conjI)
qed

text \<open>
  Claim C8. A shaded family without a \<^verbatim>\<open>DEFAULT\<close> shade yields the suffixed classes
  \<^verbatim>\<open>.wg-background-{name}-{shade}\<close> only, without an error: the function for families and
  the expander on that entry alone return just these classes, and in the result for a
  larger mapping all of them are present, while the unshaded class \<^verbatim>\<open>.wg-background-{name}\<close>
  is present only if an entry of another name produces it.
\<close>

theorem family_without_DEFAULT:
  assumes "''DEFAULT'' \<notin> fst ` set family" and "distinct (map fst family)"
  shows "createShadedColorUtility name (JObj family) =
           Inr (map (\<lambda>(shade, v). (''.wg-background-'' @ name @ ''-'' @ shade,
                      JObj [(''backgroundColor'', v), (''--wg-background'', v)])) family) \<and>
         generateExtendedColorUtilities [(name, JObj family)] =
           Inr (map (\<lambda>(shade, v). (''.wg-background-'' @ name @ ''-'' @ shade,
                      JObj [(''backgroundColor'', v), (''--wg-background'', v)])) family) \<and>
         (\<forall>colors.
            (\<forall>(n, v) \<in> set colors. v \<noteq> JNull) \<and> distinct (map fst colors) \<and>
            (name, JObj family) \<in> set colors \<longrightarrow>
            (\<exists>U. generateExtendedColorUtilities colors = Inr U \<and>
                 (\<forall>shade \<in> fst ` set family.
                    ''.wg-background-'' @ name @ ''-'' @ shade \<in> fst ` set U) \<and>
                 (''.wg-background-'' @ name \<in> fst ` set U \<longrightarrow>
                    (\<exists>(n', v') \<in> set colors. n' \<noteq> name \<and>
                       ''.wg-background-'' @ name \<in> fst ` set (entryUtilities n' v')))))"
proof -
  let ?F = "map (\<lambda>(shade, v). (''.wg-background-'' @ name @ ''-'' @ shade,
                      JObj [(''backgroundColor'', v), (''--wg-background'', v)])) family"
  have fam: "familyUtilities name family = ?F"
    using assms(1) by (rule familyUtilities_no_DEFAULT)
  have shaded: "createShadedColorUtility name (JObj family) = Inr ?F"
    using assms(2) by (simp add: createShadedColorUtility_entries fam)
  have dF: "distinct (map fst ?F)"
    using distinct_familyUtilities [OF assms(2), of name] by (simp add: fam)
  have single: "generateExtendedColorUtilities [(name, JObj family)] = Inr ?F"
    using shaded _ dF by (rule generateExtendedColorUtilities_single_family) simp
  have keysF: "fst ` set ?F = (\<lambda>shade. ''.wg-background-'' @ name @ ''-'' @ shade) ` fst ` set family"
    by (force simp: image_iff)
  have general: "\<exists>U. generateExtendedColorUtilities colors = Inr U \<and>
                 (\<forall>shade \<in> fst ` set family.
                    ''.wg-background-'' @ name @ ''-'' @ shade \<in> fst ` set U) \<and>
                 (''.wg-background-'' @ name \<in> fst ` set U \<longrightarrow>
                    (\<exists>(n', v') \<in> set colors. n' \<noteq> name \<and>
                       ''.wg-background-'' @ name \<in> fst ` set (entryUtilities n' v')))"
    if nn: "\<forall>(n, v) \<in> set colors. v \<noteq> JNull" and dc: "distinct (map fst colors)"
      and mem: "(name, JObj family) \<in> set colors" for colors
  proof -
    let ?U = "assignAll [] colors"
    have ret: "generateExtendedColorUtilities colors = Inr ?U"
      using nn by (rule generateExtendedColorUtilities_total)
    have own: "entryUtilities name (JObj family) = ?F"
      using assms(2) by (simp add: entryUtilities_family fam)
    have sub: "fst ` set ?F \<subseteq> fst ` set ?U"
      using keys_subset_output [OF mem] by (simp add: own)
    have suffixed: "\<forall>shade \<in> fst ` set family.
                      ''.wg-background-'' @ name @ ''-'' @ shade \<in> fst ` set ?U"
      using sub unfolding keysF by blast
    have unshaded: "\<exists>(n', v') \<in> set colors. n' \<noteq> name \<and>
                       ''.wg-background-'' @ name \<in> fst ` set (entryUtilities n' v')"
      if "''.wg-background-'' @ name \<in> fst ` set ?U"
    proof -
      from that obtain n' v' where e: "(n', v') \<in> set colors"
        and c: "''.wg-background-'' @ name \<in> fst ` set (entryUtilities n' v')"
        by (auto simp: keys_assignAll keys_emitted_Union)
      have "n' \<noteq> name"
      proof
        assume "n' = name"
        with e mem dc have "v' = JObj family"
          by (metis eq_key_imp_eq_value)
        with c \<open>n' = name\<close> have "''.wg-background-'' @ name \<in> fst ` set ?F"
          by (simp add: own)
        then show False unfolding keysF by auto
      qed
      with e c show ?thesis by blast
    qed
    from ret suffixed unshaded show ?thesis by blast
  qed
  from shaded single general show ?thesis by blast
qed

theorem family_without_DEFAULT_witness:
  "createShadedColorUtility ''tone'' (JObj [(''100'', JStr ''#101010''), (''200'', JStr ''#202020'')])
     = Inr [(''.wg-background-tone-100'',
               JObj [(''backgroundColor'', JStr ''#101010''), (''--wg-background'', JStr ''#101010'')]),
            (''.wg-background-tone-200'',
               JObj [(''backgroundColor'', JStr ''#202020''), (''--wg-background'', JStr ''#202020'')])] \<and>
   generateExtendedColorUtilities
       [(''tone'', JObj [(''100'', JStr ''#101010''), (''200'', JStr ''#202020'')])]
     = Inr [(''.wg-background-tone-100'',
               JObj [(''backgroundColor'', JStr ''#101010''), (''--wg-background'', JStr ''#101010'')]),
            (''.wg-background-tone-200'',
               JObj [(''backgroundColor'', JStr ''#202020''), (''--wg-background'', JStr ''#202020'')])] \<and>
   (\<exists>U. generateExtendedColorUtilities
           [(''red'', JStr ''#FF0000''),
            (''tone'', JObj [(''100'', JStr ''#101010''), (''200'', JStr ''#202020'')])] = Inr U \<and>
        ''.wg-background-tone-100'' \<in> fst ` set U \<and>
        ''.wg-background-tone-200'' \<in> fst ` set U \<and>
        ''.wg-background-tone'' \<notin> fst ` set U)"
proof -
  let ?family = "[(''100'', JStr ''#101010''), (''200'', JStr ''#202020'')]"
  let ?colors = "[(''red'', JStr ''#FF0000''), (''tone'', JObj ?family)]"
  have h1: "''DEFAULT'' \<notin> fst ` set ?family"
    by simp
  have h2: "distinct (map fst ?family)"
    by simp
  note inst = family_without_DEFAULT [OF h1 h2, of "''tone''"]
  from inst have a: "createShadedColorUtility ''tone'' (JObj ?family)
     = Inr [(''.wg-background-tone-100'',
               JObj [(''backgroundColor'', JStr ''#101010''), (''--wg-background'', JStr ''#101010'')]),
            (''.wg-background-tone-200'',
               JObj [(''backgroundColor'', JStr ''#202020''), (''--wg-background'', JStr ''#202020'')])]"
    by simp
  from inst have b: "generateExtendedColorUtilities [(''tone'', JObj ?family)]
     = Inr [(''.wg-background-tone-100'',
               JObj [(''backgroundColor'', JStr ''#101010''), (''--wg-background'', JStr ''#101010'')]),
            (''.wg-background-tone-200'',
               JObj [(''backgroundColor'', JStr ''#202020''), (''--wg-background'', JStr ''#202020'')])]"
    by simp
  have h3: "(\<forall>(n, v) \<in> set ?colors. v \<noteq> JNull) \<and> distinct (map fst ?colors) \<and>
            (''tone'', JObj ?family) \<in> set ?colors"
    by simp
  have red: "entryUtilities ''red'' (JStr ''#FF0000'')
               = [(''.wg-background-red'', bothProperties (JStr ''#FF0000''))]"
    by (simp add: entryUtilities_def createSimpleColorUtility_def declarations_both)
  from inst have "\<forall>colors.
            (\<forall>(n, v) \<in> set colors. v \<noteq> JNull) \<and> distinct (map fst colors) \<and>
            (''tone'', JObj ?family) \<in> set colors \<longrightarrow>
            (\<exists>U. generateExtendedColorUtilities colors = Inr U \<and>
                 (\<forall>shade \<in> fst ` set ?family.
                    ''.wg-background-'' @ ''tone'' @ ''-'' @ shade \<in> fst ` set U) \<and>
                 (''.wg-background-'' @ ''tone'' \<in> fst ` set U \<longrightarrow>
                    (\<exists>(n', v') \<in> set colors. n' \<noteq> ''tone'' \<and>
                       ''.wg-background-'' @ ''tone'' \<in> fst ` set (entryUtilities n' v'))))"
    by (elim conjE)
  then have "(\<forall>(n, v) \<in> set ?colors. v \<noteq> JNull) \<and> distinct (map fst ?colors) \<and>
            (''tone'', JObj ?family) \<in> set ?colors \<longrightarrow>
            (\<exists>U. generateExtendedColorUtilities ?colors = Inr U \<and>
                 (\<forall>shade \<in> fst ` set ?family.
                    ''.wg-background-'' @ ''tone'' @ ''-'' @ shade \<in> fst ` set U) \<and>
                 (''.wg-background-'' @ ''tone'' \<in> fst ` set U \<longrightarrow>
                    (\<exists>(n', v') \<in> set ?colors. n' \<noteq> ''tone'' \<and>
                       ''.wg-background-'' @ ''tone'' \<in> fst ` set (entryUtilities n' v'))))"
    by (rule spec)
  from this h3 have "\<exists>U. generateExtendedColorUtilities ?colors = Inr U \<and>
                 (\<forall>shade \<in> fst ` set ?family.
                    ''.wg-background-'' @ ''tone'' @ ''-'' @ shade \<in> fst ` set U) \<and>
                 (''.wg-background-'' @ ''tone'' \<in> fst ` set U \<longrightarrow>
                    (\<exists>(n', v') \<in> set ?colors. n' \<noteq> ''tone'' \<and>
                       ''.wg-background-'' @ ''tone'' \<in> fst ` set (entryUtilities n' v')))"
    by (rule mp)
  then obtain U where ret: "generateExtendedColorUtilities ?colors = Inr U"
    and suffixed: "\<forall>shade \<in> fst ` set ?family.
                     ''.wg-background-'' @ ''tone'' @ ''-'' @ shade \<in> fst ` set U"
    and unshaded: "''.wg-background-'' @ ''tone'' \<in> fst ` set U \<longrightarrow>
                    (\<exists>(n', v') \<in> set ?colors. n' \<noteq> ''tone'' \<and>
                       ''.wg-background-'' @ ''tone'' \<in> fst ` set (entryUtilities n' v'))"
    by (elim exE conjE)
  from suffixed have s1: "''.wg-background-tone-100'' \<in> fst ` set U"
    and s2: "''.wg-background-tone-200'' \<in> fst ` set U"
    by simp_all
  from unshaded have s3: "''.wg-background-tone'' \<notin> fst ` set U"
    by (auto simp: red)
  from ret s1 s2 s3 have c: "\<exists>U. generateExtendedColorUtilities ?colors = Inr U \<and>
        ''.wg-background-tone-100'' \<in> fst ` set U \<and>
        ''.wg-background-tone-200'' \<in> fst ` set U \<and>
        ''.wg-background-tone'' \<notin> fst ` set U"
    by (intro exI [of _ U] conjI)
  from a b c show ?thesis by (intro conjI)
qed

text \<open>
  Claim C9. An entry whose value is an array is not skipped: \<^verbatim>\<open>typeof\<close> gives \<^verbatim>\<open>"object"\<close>, and
  the entry is expanded like a shaded family whose shades are the indices. There is one
  class \<^verbatim>\<open>.wg-background-{name}-{i}\<close> for every index \<open>i\<close>, and it sets both properties to
  the element at that index.
\<close>

theorem array_entry_is_family:
  "typeof (JArr xs) = ''object'' \<and>
   createShadedColorUtility name (JArr xs) =
     Inr (map (\<lambda>i. (''.wg-background-'' @ name @ ''-'' @ string_of_nat i,
                     JObj [(''backgroundColor'', xs ! i), (''--wg-background'', xs ! i)]))
              [0..<length xs]) \<and>
   generateExtendedColorUtilities [(name, JArr xs)] =
     Inr (map (\<lambda>i. (''.wg-background-'' @ name @ ''-'' @ string_of_nat i,
                     JObj [(''backgroundColor'', xs ! i), (''--wg-background'', xs ! i)]))
              [0..<length xs]) \<and>
   (\<forall>colors.
      (\<forall>(n, v) \<in> set colors. v \<noteq> JNull) \<and> (name, JArr xs) \<in> set colors \<longrightarrow>
      (\<exists>U. generateExtendedColorUtilities colors = Inr U \<and>
           (\<forall>i < length xs.
              ''.wg-background-'' @ name @ ''-'' @ string_of_nat i \<in> fst ` set U)))"
proof -
  let ?F = "map (\<lambda>i. (''.wg-background-'' @ name @ ''-'' @ string_of_nat i,
                     JObj [(''backgroundColor'', xs ! i), (''--wg-background'', xs ! i)]))
              [0..<length xs]"
  have fam: "familyUtilities name (indexed xs) = ?F"
    by (rule familyUtilities_indexed)
  have shaded: "createShadedColorUtility name (JArr xs) = Inr ?F"
    using createShadedColorUtility_entries [of "JArr xs" "indexed xs" name]
    by (simp add: distinct_indexed fam)
  have dF: "distinct (map fst ?F)"
    using distinct_familyUtilities [OF distinct_indexed, of name xs] by (simp only: fam)
  have single: "generateExtendedColorUtilities [(name, JArr xs)] = Inr ?F"
    using shaded _ dF by (rule generateExtendedColorUtilities_single_family) simp
  have general: "\<exists>U. generateExtendedColorUtilities colors = Inr U \<and>
           (\<forall>i < length xs.
              ''.wg-background-'' @ name @ ''-'' @ string_of_nat i \<in> fst ` set U)"
    if nn: "\<forall>(n, v) \<in> set colors. v \<noteq> JNull" and mem: "(name, JArr xs) \<in> set colors"
    for colors
  proof -
    let ?U = "assignAll [] colors"
    have ret: "generateExtendedColorUtilities colors = Inr ?U"
      using nn by (rule generateExtendedColorUtilities_total)
    have own: "entryUtilities name (JArr xs) = ?F"
      by (simp only: entryUtilities_array fam)
    have sub: "fst ` set ?F \<subseteq> fst ` set ?U"
      using keys_subset_output [OF mem] by (simp only: own)
    have keysF: "fst ` set ?F
                   = (\<lambda>i. ''.wg-background-'' @ name @ ''-'' @ string_of_nat i) ` {0..<length xs}"
      by (simp add: image_image)
    have "''.wg-background-'' @ name @ ''-'' @ string_of_nat i \<in> fst ` set ?U"
      if "i < length xs" for i
    proof -
      from that have "''.wg-background-'' @ name @ ''-'' @ string_of_nat i \<in> fst ` set ?F"
        unfolding keysF by simp
      with sub show ?thesis by (rule subsetD)
    qed
    with ret show ?thesis by (intro exI [of _ ?U] conjI allI impI)
  qed
  have "typeof (JArr xs) = ''object''" by simp
  moreover note shaded single
  moreover from general have "\<forall>colors.
      (\<forall>(n, v) \<in> set colors. v \<noteq> JNull) \<and> (name, JArr xs) \<in> set colors \<longrightarrow>
      (\<exists>U. generateExtendedColorUtilities colors = Inr U \<and>
           (\<forall>i < length xs.
              ''.wg-background-'' @ name @ ''-'' @ string_of_nat i \<in> fst ` set U))"
    by (intro allI impI) (elim conjE)
  ultimately show ?thesis by (intro conjI)
qed

lemma string_of_nat_small: "string_of_nat 0 = ''0''" "string_of_nat (Suc 0) = ''1''"
  by (simp_all add: string_of_nat.simps digit_char_def)

theorem array_entry_is_family_witness:
  "generateExtendedColorUtilities [(''tone'', JArr [JStr ''#101010'', JStr ''#202020''])] =
     Inr [(''.wg-background-tone-0'',
             JObj [(''backgroundColor'', JStr ''#101010''), (''--wg-background'', JStr ''#101010'')]),
          (''.wg-background-tone-1'',
             JObj [(''backgroundColor'', JStr ''#202020''), (''--wg-background'', JStr ''#202020'')])] \<and>
   (\<exists>U. generateExtendedColorUtilities toneColors = Inr U \<and>
        (\<forall>i < length [JStr ''#101010'', JStr ''#202020''].
           ''.wg-background-'' @ ''tone'' @ ''-'' @ string_of_nat i \<in> fst ` set U))"
proof -
  note inst = array_entry_is_family [of "[JStr ''#101010'', JStr ''#202020'']" "''tone''"]
  have up: "[0..<length [JStr ''#101010'', JStr ''#202020'']] = [0, Suc 0]"
    by (simp add: upt_rec)
  have "generateExtendedColorUtilities [(''tone'', JArr [JStr ''#101010'', JStr ''#202020''])] =
     Inr (map (\<lambda>i. (''.wg-background-'' @ ''tone'' @ ''-'' @ string_of_nat i,
                     JObj [(''backgroundColor'', [JStr ''#101010'', JStr ''#202020''] ! i),
                           (''--wg-background'', [JStr ''#101010'', JStr ''#202020''] ! i)]))
              [0..<length [JStr ''#101010'', JStr ''#202020'']])"
    using inst by (elim conjE)
  then have a: "generateExtendedColorUtilities [(''tone'', JArr [JStr ''#101010'', JStr ''#202020''])] =
     Inr [(''.wg-background-tone-0'',
             JObj [(''backgroundColor'', JStr ''#101010''), (''--wg-background'', JStr ''#101010'')]),
          (''.wg-background-tone-1'',
             JObj [(''backgroundColor'', JStr ''#202020''), (''--wg-background'', JStr ''#202020'')])]"
    unfolding up by (simp add: string_of_nat_small)
  have h: "(\<forall>(n, v) \<in> set toneColors. v \<noteq> JNull) \<and>
           (''tone'', JArr [JStr ''#101010'', JStr ''#202020'']) \<in> set toneColors"
    by (simp add: toneColors_def)
  have "\<forall>colors.
      (\<forall>(n, v) \<in> set colors. v \<noteq> JNull) \<and>
      (''tone'', JArr [JStr ''#101010'', JStr ''#202020'']) \<in> set colors \<longrightarrow>
      (\<exists>U. generateExtendedColorUtilities colors = Inr U \<and>
           (\<forall>i < length [JStr ''#101010'', JStr ''#202020''].
              ''.wg-background-'' @ ''tone'' @ ''-'' @ string_of_nat i \<in> fst ` set U))"
    using inst by (elim conjE)
  then have b: "\<exists>U. generateExtendedColorUtilities toneColors = Inr U \<and>
        (\<forall>i < length [JStr ''#101010'', JStr ''#202020''].
           ''.wg-background-'' @ ''tone'' @ ''-'' @ string_of_nat i \<in> fst ` set U)"
    using h by (elim allE [of _ toneColors] impE)
  from a b show ?thesis by (rule conjI)
qed

text \<open>
  Claim C10. When several entries produce the same class name, the result has exactly one
  property of that name, and its value comes from the last of these entries in the order of
  enumeration; a class that only one entry produces has the value from that entry. Stated
  for an entry \<open>(name, v)\<close> that produces the class \<open>c\<close> with the declarations \<open>d\<close> and is not
  followed by another entry producing \<open>c\<close>: whatever the entries before it produce, the
  result has \<open>c\<close> once, with \<open>d\<close>.
\<close>

theorem later_entry_overwrites:
  assumes "\<forall>(n, v) \<in> set colors. v \<noteq> JNull"
      and "colors = before @ (name, v) # after"
      and "(c, d) \<in> set (entryUtilities name v)"
      and "\<forall>(n', v') \<in> set after. c \<notin> fst ` set (entryUtilities n' v')"
  shows "\<exists>U. generateExtendedColorUtilities colors = Inr U \<and>
             distinct (map fst U) \<and>
             (\<forall>d'. (c, d') \<in> set U \<longleftrightarrow> d' = d)"
proof -
  let ?U = "assignAll [] colors"
  have ret: "generateExtendedColorUtilities colors = Inr ?U"
    using assms(1) by (rule generateExtendedColorUtilities_total)
  have dist: "distinct (map fst ?U)"
    by (rule distinct_assignAll) simp
  have "c \<notin> fst ` set (emitted after)"
    using assms(4) unfolding keys_emitted_Union by auto
  with assms(3) have "map_of (rev (emitted (before @ (name, v) # after))) c = Some d"
    by (rule map_of_rev_emitted_last)
  then have "map_of ?U c = Some d"
    by (simp add: map_of_assignAll assms(2))
  with dist have "\<forall>d'. (c, d') \<in> set ?U \<longleftrightarrow> d' = d"
    by (metis map_of_eq_Some_iff option.inject)
  with ret dist show ?thesis by blast
qed

theorem later_entry_overwrites_witness:
  "generateExtendedColorUtilities collidingColors
     = Inr [(''.wg-background-a-b'',
               JObj [(''backgroundColor'', JStr ''#222222''), (''--wg-background'', JStr ''#222222'')]),
            (''.wg-background-c'',
               JObj [(''backgroundColor'', JStr ''#333333''), (''--wg-background'', JStr ''#333333'')])] \<and>
   (\<exists>U. generateExtendedColorUtilities collidingColors = Inr U \<and>
        distinct (map fst U) \<and>
        (\<forall>d'. (''.wg-background-a-b'', d') \<in> set U \<longleftrightarrow> d' = bothProperties (JStr ''#222222'')))"
proof -
  have h1: "\<forall>(n, v) \<in> set collidingColors. v \<noteq> JNull"
    by (simp add: collidingColors_def)
  have h2: "collidingColors
              = [(''a-b'', JStr ''#111111'')] @ (''a'', JObj [(''b'', JStr ''#222222'')])
                  # [(''c'', JStr ''#333333'')]"
    by (simp add: collidingColors_def)
  have h3: "(''.wg-background-a-b'', bothProperties (JStr ''#222222''))
              \<in> set (entryUtilities ''a'' (JObj [(''b'', JStr ''#222222'')]))"
    by (simp add: entryUtilities_def createShadedColorUtility_def shadeStep_def
          declarations_both)
  have h4: "\<forall>(n', v') \<in> set [(''c'', JStr ''#333333'')].
              ''.wg-background-a-b'' \<notin> fst ` set (entryUtilities n' v')"
    by (simp add: entryUtilities_def createSimpleColorUtility_def)
  have run: "generateExtendedColorUtilities collidingColors
     = Inr [(''.wg-background-a-b'',
               JObj [(''backgroundColor'', JStr ''#222222''), (''--wg-background'', JStr ''#222222'')]),
            (''.wg-background-c'',
               JObj [(''backgroundColor'', JStr ''#333333''), (''--wg-background'', JStr ''#333333'')])]"
    by (simp add: collidingColors_def generateExtendedColorUtilities_def
          createSimpleColorUtility_def createShadedColorUtility_def shadeStep_def
          objectAssign_def declarations_def BACKGROUND_PROPERTY_def)
  from run later_entry_overwrites [OF h1 h2 h3 h4] show ?thesis
    by (rule conjI)
qed

end
